theory Spec2Isabelle
  imports Main
begin

section \<open>Python values, SQL types and expression nodes\<close>

text \<open>
  The module \<open>dialects/postgresql/ext.py\<close> builds expression-tree nodes from the
  positional and keyword arguments of its constructors. The data it handles:
  SQL types (only their class and their affinity matter here), tree nodes, and the
  Python values a caller may pass.
\<close>

datatype type_kind = NullType | String | Integer | TEXT | REGCONFIG | TSQUERY | TSVECTOR

text \<open>A type is one of the known classes or a named subclass of another type.\<close>

datatype sqltype = Plain type_kind | Subtype string sqltype

text \<open>
  Modelled from the spec: \<open>TypeEngine._type_affinity\<close> (sql/type_api.py is not part of
  the module). It names the general class of a type; a subclass keeps the affinity of
  the class it derives from, so that "the inferred type is a text-search query type"
  reads \<open>type_affinity t = TSQUERY\<close>.
\<close>

fun type_affinity :: "sqltype \<Rightarrow> type_kind" where
  "type_affinity (Plain k) = k"
| "type_affinity (Subtype _ t) = type_affinity t"

datatype error =
    TypeError string
  | ValueError string
  | KeyError string
  | ConstraintColumnNotFoundError string
  | AttributeError string
  | ArgumentError string
  | InvalidRequestError string

datatype literal = LitStr string | LitInt int | LitBool bool

datatype column = Column (col_name: string) (col_type: sqltype) (col_table: "string option")

datatype node =
    ColumnRef column
  | BindParameter literal sqltype
  | TextClause string
  | FunctionElement string "node list" sqltype
  | ClauseList "node list"

text \<open>\<open>isinstance(n, elements.ColumnElement)\<close>: text fragments and list wrappers are
  clause elements but not column expressions.\<close>

fun is_ColumnElement :: "node \<Rightarrow> bool" where
  "is_ColumnElement (ColumnRef _) = True"
| "is_ColumnElement (BindParameter _ _) = True"
| "is_ColumnElement (FunctionElement _ _ _) = True"
| "is_ColumnElement (TextClause _) = False"
| "is_ColumnElement (ClauseList _) = False"

text \<open>The attribute \<open>.type\<close> of a node; a list wrapper has none.\<close>

fun node_type :: "node \<Rightarrow> sqltype option" where
  "node_type (ColumnRef c) = Some (col_type c)"
| "node_type (BindParameter _ t) = Some t"
| "node_type (FunctionElement _ _ t) = Some t"
| "node_type (TextClause _) = Some (Plain NullType)"
| "node_type (ClauseList _) = None"

text \<open>What a caller can pass as a positional or keyword argument.\<close>

datatype pyarg =
    PyNone
  | PyBool bool
  | PyInt int
  | PyStr string
  | PyDict "(string \<times> string) list"
  | PyNode node
  | PyObject string

datatype role = ExpressionElementRole | DDLConstraintColumnRole | StatementOptionRole | ByOfRole

text \<open>
  \<open>coercions.expect(role, value, type_=...)\<close> lives in sql/coercions.py, outside the
  module. The constructors below take it as a parameter: a function from the role, the
  value and the optional type override to the coerced node or the error it raises.
\<close>

type_synonym expect_fn = "role \<Rightarrow> pyarg \<Rightarrow> sqltype option \<Rightarrow> error + node"

text \<open>The comprehension \<open>[coercions.expect(role, c) for c in args]\<close>: left to right,
  the first failure is the one raised.\<close>

fun expect_each :: "expect_fn \<Rightarrow> role \<Rightarrow> pyarg list \<Rightarrow> error + node list" where
  "expect_each expect r [] = Inr []"
| "expect_each expect r (c # cs) =
     (case expect r c None of
        Inl e \<Rightarrow> Inl e
      | Inr n \<Rightarrow>
          (case expect_each expect r cs of
             Inl e \<Rightarrow> Inl e
           | Inr ns \<Rightarrow> Inr (n # ns)))"

text \<open>
  Modelled from the spec: \<open>coercions.expect\<close>, for the concrete runs below
  (sql/coercions.py is not part of the module). A value that is already a tree node
  is returned as it is after the role's compatibility check; a scalar literal is
  wrapped as a literal node, which takes the type override when one is given; anything
  else cannot be coerced.
\<close>

fun role_accepts :: "role \<Rightarrow> node \<Rightarrow> bool" where
  "role_accepts ExpressionElementRole n = is_ColumnElement n"
| "role_accepts DDLConstraintColumnRole n = is_ColumnElement n"
| "role_accepts StatementOptionRole n = (case n of ClauseList _ \<Rightarrow> False | _ \<Rightarrow> True)"
| "role_accepts ByOfRole n = is_ColumnElement n"

fun literal_type :: "literal \<Rightarrow> sqltype" where
  "literal_type (LitStr _) = Plain String"
| "literal_type (LitInt _) = Plain Integer"
| "literal_type (LitBool _) = Plain NullType"

definition wrap_literal :: "literal \<Rightarrow> sqltype option \<Rightarrow> node" where
  "wrap_literal v ty = BindParameter v (case ty of Some t \<Rightarrow> t | None \<Rightarrow> literal_type v)"

fun coerce :: expect_fn where
  "coerce r (PyNode n) ty =
     (if role_accepts r n then Inr n else Inl (ArgumentError ''role mismatch''))"
| "coerce r (PyStr s) ty = Inr (wrap_literal (LitStr s) ty)"
| "coerce r (PyInt i) ty = Inr (wrap_literal (LitInt i) ty)"
| "coerce r (PyBool b) ty = Inr (wrap_literal (LitBool b) ty)"
| "coerce r v ty = Inl (ArgumentError ''unsupported value'')"

section \<open>aggregate_order_by\<close>

record aggregate_order_by =
  target :: node
  aob_type :: sqltype
  order_by :: node

text \<open>
  Modelled from the spec: \<open>elements.ClauseList\<close> (sql/elements.py is not part of the
  module), the ordered list wrapper. Called as
  \<open>ClauseList(*order_by, _literal_as_text_role=roles.ExpressionElementRole)\<close> it coerces
  each clause under the given role and keeps them in the given order.
\<close>

definition ClauseList_init :: "expect_fn \<Rightarrow> pyarg list \<Rightarrow> role \<Rightarrow> error + node" where
  "ClauseList_init expect clauses r =
     (case expect_each expect r clauses of
        Inl e \<Rightarrow> Inl e
      | Inr ns \<Rightarrow> Inr (ClauseList ns))"

text \<open>\<open>aggregate_order_by.__init__(self, target, *order_by)\<close>. Reading \<open>self.target.type\<close>
  on a node without that attribute raises.\<close>

definition aggregate_order_by_init ::
  "expect_fn \<Rightarrow> pyarg \<Rightarrow> pyarg list \<Rightarrow> error + aggregate_order_by" where
  "aggregate_order_by_init expect tgt order_by_terms =
     (case expect ExpressionElementRole tgt None of
        Inl e \<Rightarrow> Inl e
      | Inr t \<Rightarrow>
          (case node_type t of
             None \<Rightarrow> Inl (AttributeError ''type'')
           | Some ty \<Rightarrow>
               (let lob = length order_by_terms in
                if lob = 0 then Inl (TypeError ''at least one ORDER BY element is required'')
                else if lob = 1 then
                  (case expect ExpressionElementRole (order_by_terms ! 0) None of
                     Inl e \<Rightarrow> Inl e
                   | Inr ob \<Rightarrow> Inr \<lparr>target = t, aob_type = ty, order_by = ob\<rparr>)
                else
                  (case ClauseList_init expect order_by_terms ExpressionElementRole of
                     Inl e \<Rightarrow> Inl e
                   | Inr ob \<Rightarrow> Inr \<lparr>target = t, aob_type = ty, order_by = ob\<rparr>))))"


section \<open>ExcludeConstraint\<close>

text \<open>An entry of \<open>_render_exprs\<close>: the expression (a column name while unresolved,
  a node otherwise), the column or string name when there is one, and the operator.\<close>

type_synonym render_expr = "pyarg \<times> string option \<times> string"

record exclude_constraint =
  render_exprs :: "render_expr list"
  operators :: "string \<rightharpoonup> string"
  columns :: "pyarg list"
  ec_name :: pyarg
  deferrable :: pyarg
  initially :: pyarg
  ec_using :: pyarg
  ec_where :: "node option"
  ops :: pyarg
  parent :: "string option"
  dispatch :: "string list"

text \<open>The keyword arguments \<open>**kw\<close> and \<open>kw.get(key, default)\<close>.\<close>

type_synonym kwargs = "string \<rightharpoonup> pyarg"

definition kw_get :: "kwargs \<Rightarrow> string \<Rightarrow> pyarg \<Rightarrow> pyarg" where
  "kw_get kw k d = (case kw k of None \<Rightarrow> d | Some v \<Rightarrow> v)"

text \<open>
  \<open>expressions, operators = zip(*elements)\<close> on a sequence of pairs. \<open>zip()\<close> of nothing
  is empty, and unpacking it into two names raises.
\<close>

definition unzip_elements :: "(pyarg \<times> string) list \<Rightarrow> error + (pyarg list \<times> string list)" where
  "unzip_elements elements =
     (if elements = [] then Inl (ValueError ''not enough values to unpack (expected 2, got 0)'')
      else Inr (map fst elements, map snd elements))"

text \<open>
  Modelled from the spec: \<open>coercions.expect_col_expression_collection\<close> under the DDL
  constraint column role (sql/coercions.py is not part of the module). Each expression
  gives a 4-tuple (resolved expression, column or None, original string or None,
  column to add to the constraint or None). A column-name string is accepted as it is
  and stays a string; for any other value the role's coercion, the parameter
  \<open>expect_ddl\<close>, gives the resolved node and the column it stands for, if any.
\<close>

type_synonym expect_ddl_fn = "pyarg \<Rightarrow> error + (node \<times> column option)"

fun expect_col_expression ::
  "expect_ddl_fn \<Rightarrow> pyarg \<Rightarrow> error + (pyarg \<times> column option \<times> string option \<times> pyarg option)" where
  "expect_col_expression expect_ddl (PyStr s) = Inr (PyStr s, None, Some s, Some (PyStr s))"
| "expect_col_expression expect_ddl v =
     (case expect_ddl v of
        Inl e \<Rightarrow> Inl e
      | Inr (resolved, col) \<Rightarrow>
          Inr (PyNode resolved, col, None, map_option (\<lambda>k. PyNode (ColumnRef k)) col))"

text \<open>The \<open>for\<close> loop of \<open>ExcludeConstraint.__init__\<close> over the coerced expressions
  zipped with the operators; the accumulator is \<open>columns\<close>, \<open>render_exprs\<close> and
  \<open>self.operators\<close>.\<close>

fun init_loop ::
  "expect_ddl_fn \<Rightarrow> (pyarg \<times> string) list \<Rightarrow>
   pyarg list \<times> render_expr list \<times> (string \<rightharpoonup> string) \<Rightarrow>
   error + (pyarg list \<times> render_expr list \<times> (string \<rightharpoonup> string))" where
  "init_loop expect_ddl [] acc = Inr acc"
| "init_loop expect_ddl ((e, operator) # rest) (cols, rexprs, opers) =
     (case expect_col_expression expect_ddl e of
        Inl err \<Rightarrow> Inl err
      | Inr (expr, col, strname, add_element) \<Rightarrow>
          (let cols' = (case add_element of None \<Rightarrow> cols | Some a \<Rightarrow> cols @ [a]);
               name = (case col of Some k \<Rightarrow> Some (col_name k) | None \<Rightarrow> strname);
               opers' = (case name of Some n \<Rightarrow> opers(n \<mapsto> operator) | None \<Rightarrow> opers)
           in init_loop expect_ddl rest (cols', rexprs @ [(expr, name, operator)], opers')))"

text \<open>\<open>where = kw.get("where")\<close>, coerced when it is not None; the class attribute
  \<open>where = None\<close> stays otherwise.\<close>

definition coerce_where :: "expect_fn \<Rightarrow> kwargs \<Rightarrow> error + node option" where
  "coerce_where expect kw =
     (case kw_get kw ''where'' PyNone of
        PyNone \<Rightarrow> Inr None
      | w \<Rightarrow> (case expect StatementOptionRole w None of
                Inl e \<Rightarrow> Inl e
              | Inr n \<Rightarrow> Inr (Some n)))"

text \<open>A table as the constraint sees it: its name, the column collection \<open>table.c\<close>
  and the names of the constraints registered with it.\<close>

record table =
  table_name :: string
  table_c :: "string \<rightharpoonup> column"
  constraints :: "pyarg list"

text \<open>
  \<open>super()._set_parent(table)\<close> is \<open>ColumnCollectionConstraint._set_parent\<close>, in
  sql/schema.py, outside the module. \<open>_set_parent\<close> takes it as a parameter: from the
  constraint and the table it gives both as it leaves them, and the error if it raised.
\<close>

type_synonym base_set_parent_fn =
  "exclude_constraint \<Rightarrow> table \<Rightarrow> exclude_constraint \<times> table \<times> error option"

text \<open>\<open>expr if not isinstance(expr, str) else table.c[expr]\<close>; a missing key raises.\<close>

definition resolve_expr :: "table \<Rightarrow> pyarg \<Rightarrow> error + pyarg" where
  "resolve_expr t expr =
     (case expr of
        PyStr s \<Rightarrow> (case table_c t s of
                      None \<Rightarrow> Inl (KeyError s)
                    | Some col \<Rightarrow> Inr (PyNode (ColumnRef col)))
      | _ \<Rightarrow> Inr expr)"

text \<open>The list comprehension of \<open>_set_parent\<close> over \<open>self._render_exprs\<close>.\<close>

fun resolve_exprs :: "table \<Rightarrow> render_expr list \<Rightarrow> error + render_expr list" where
  "resolve_exprs t [] = Inr []"
| "resolve_exprs t ((expr, name, operator) # rest) =
     (case resolve_expr t expr of
        Inl e \<Rightarrow> Inl e
      | Inr expr' \<Rightarrow>
          (case resolve_exprs t rest of
             Inl e \<Rightarrow> Inl e
           | Inr rs \<Rightarrow> Inr ((expr', name, operator) # rs)))"

text \<open>
  \<open>ExcludeConstraint._set_parent(self, table)\<close>: the base class first, then the new
  render list, assigned only when the whole comprehension has been evaluated. The
  result is the constraint and the table as the call leaves them, with the error if
  it raised.
\<close>

definition set_parent ::
  "base_set_parent_fn \<Rightarrow> exclude_constraint \<Rightarrow> table \<Rightarrow> exclude_constraint \<times> table \<times> error option" where
  "set_parent base self t =
     (case base self t of
        (self1, t1, Some e) \<Rightarrow> (self1, t1, Some e)
      | (self1, t1, None) \<Rightarrow>
          (case resolve_exprs t1 (render_exprs self1) of
             Inl e \<Rightarrow> (self1, t1, Some e)
           | Inr rs \<Rightarrow> (self1\<lparr>render_exprs := rs\<rparr>, t1, None)))"

text \<open>
  Modelled from the spec: \<open>ColumnCollectionConstraint._set_parent\<close>, for the concrete
  runs below. The constraint belongs to the table from then on and the table lists it;
  then every column name the constructor handed to the base class is looked up in the
  table's column collection, and a name the table lacks is a lookup error.
\<close>

definition lookup_column :: "table \<Rightarrow> pyarg \<Rightarrow> error + pyarg" where
  "lookup_column t col =
     (case col of
        PyStr s \<Rightarrow> (case table_c t s of
                      None \<Rightarrow> Inl (ConstraintColumnNotFoundError s)
                    | Some k \<Rightarrow> Inr (PyNode (ColumnRef k)))
      | _ \<Rightarrow> Inr col)"

fun lookup_columns :: "table \<Rightarrow> pyarg list \<Rightarrow> error + pyarg list" where
  "lookup_columns t [] = Inr []"
| "lookup_columns t (col # rest) =
     (case lookup_column t col of
        Inl e \<Rightarrow> Inl e
      | Inr col' \<Rightarrow>
          (case lookup_columns t rest of
             Inl e \<Rightarrow> Inl e
           | Inr cols \<Rightarrow> Inr (col' # cols)))"

definition ColumnCollectionConstraint_set_parent :: base_set_parent_fn where
  "ColumnCollectionConstraint_set_parent self t =
     (let self1 = self\<lparr>parent := Some (table_name t)\<rparr>;
          t1 = t\<lparr>constraints := constraints t @ [ec_name self]\<rparr>
      in case lookup_columns t1 (columns self1) of
           Inl e \<Rightarrow> (self1, t1, Some e)
         | Inr cols \<Rightarrow> (self1\<lparr>columns := cols\<rparr>, t1, None))"

text \<open>
  \<open>ColumnCollectionConstraint.__init__(self, *columns, name, deferrable, initially)\<close> is
  in sql/schema.py, outside the module.
  Modelled from the spec: it records the column collection and the modifiers \<open>name\<close>,
  \<open>deferrable\<close> and \<open>initially\<close>. A constraint belongs to one parent table, set once
  via attachment, and the base constructor may attach the new constraint at once:
  whether it does, and to which table, is the parameter \<open>check_attach\<close>, a function
  from the column arguments to the table, to none, or to the error raised. Attaching
  runs the constraint's own \<open>_set_parent\<close>, and an error there leaves no constraint. The
  result is the constraint and, when it was attached, the table as the call leaves it.
\<close>

type_synonym check_attach_fn = "pyarg list \<Rightarrow> error + table option"

definition ColumnCollectionConstraint_init ::
  "check_attach_fn \<Rightarrow> base_set_parent_fn \<Rightarrow> exclude_constraint \<Rightarrow> pyarg list \<Rightarrow>
   pyarg \<Rightarrow> pyarg \<Rightarrow> pyarg \<Rightarrow> error + (exclude_constraint \<times> table option)" where
  "ColumnCollectionConstraint_init check_attach base self cols nm dfr ini =
     (let self0 = self\<lparr>columns := cols, ec_name := nm, deferrable := dfr, initially := ini\<rparr>
      in case check_attach cols of
           Inl e \<Rightarrow> Inl e
         | Inr None \<Rightarrow> Inr (self0, None)
         | Inr (Some t) \<Rightarrow>
             (case set_parent base self0 t of
                (self1, t1, Some e) \<Rightarrow> Inl e
              | (self1, t1, None) \<Rightarrow> Inr (self1, Some t1)))"

text \<open>An instance before \<open>__init__\<close> has assigned anything: \<open>where\<close> is the class
  attribute \<open>None\<close>, there is no parent and no dispatch registration; the attributes
  not assigned yet are shown as \<open>None\<close>, and nothing reads them before they are.\<close>

definition new_constraint :: exclude_constraint where
  "new_constraint =
     \<lparr>render_exprs = [], operators = Map.empty, columns = [],
      ec_name = PyNone, deferrable = PyNone, initially = PyNone,
      ec_using = PyNone, ec_where = None, ops = PyNone,
      parent = None, dispatch = []\<rparr>"

text \<open>
  \<open>ExcludeConstraint.__init__(self, *elements, **kw)\<close>: the loop, the base constructor,
  then \<open>using\<close>, \<open>where\<close> (assigned only when it is not None) and \<open>ops\<close>. The result
  is the constraint and, when the base constructor attached it, the table.
\<close>

definition ExcludeConstraint_init ::
  "expect_ddl_fn \<Rightarrow> expect_fn \<Rightarrow> check_attach_fn \<Rightarrow> base_set_parent_fn \<Rightarrow>
   (pyarg \<times> string) list \<Rightarrow> kwargs \<Rightarrow> error + (exclude_constraint \<times> table option)" where
  "ExcludeConstraint_init expect_ddl expect check_attach base elements kw =
     (case unzip_elements elements of
        Inl e \<Rightarrow> Inl e
      | Inr (expressions, opers_in) \<Rightarrow>
          (case init_loop expect_ddl (zip expressions opers_in) ([], [], Map.empty) of
             Inl e \<Rightarrow> Inl e
           | Inr (cols, rexprs, opers) \<Rightarrow>
               (case ColumnCollectionConstraint_init check_attach base
                       (new_constraint\<lparr>render_exprs := rexprs, operators := opers\<rparr>) cols
                       (kw_get kw ''name'' PyNone)
                       (kw_get kw ''deferrable'' PyNone)
                       (kw_get kw ''initially'' PyNone) of
                  Inl e \<Rightarrow> Inl e
                | Inr (self1, tb) \<Rightarrow>
                    (case coerce_where expect kw of
                       Inl e \<Rightarrow> Inl e
                     | Inr wh \<Rightarrow>
                         Inr ((case wh of
                                 None \<Rightarrow> self1
                               | Some n \<Rightarrow> self1\<lparr>ec_where := Some n\<rparr>)
                                \<lparr>ec_using := kw_get kw ''using'' (PyStr ''gist''),
                                 ops := kw_get kw ''ops'' (PyDict [])\<rparr>,
                              tb)))))"

text \<open>
  \<open>schema._copy_expression(expr, self.parent, target_table)\<close> is outside the module;
  \<open>_copy\<close> takes it as a parameter.
\<close>

type_synonym copy_expression_fn = "pyarg \<Rightarrow> string \<Rightarrow> table option \<Rightarrow> pyarg"

definition where_arg :: "node option \<Rightarrow> pyarg" where
  "where_arg w = (case w of None \<Rightarrow> PyNone | Some n \<Rightarrow> PyNode n)"

text \<open>The keyword arguments \<open>_copy\<close> passes to the constructor.\<close>

definition copy_kw :: "exclude_constraint \<Rightarrow> kwargs" where
  "copy_kw self =
     [''name'' \<mapsto> ec_name self,
      ''deferrable'' \<mapsto> deferrable self,
      ''initially'' \<mapsto> initially self,
      ''where'' \<mapsto> where_arg (ec_where self),
      ''using'' \<mapsto> ec_using self]"

text \<open>
  \<open>ExcludeConstraint._copy(self, target_table=None)\<close>. Reading \<open>self.parent\<close> on a
  constraint that was never attached raises.
  Modelled from the spec: \<open>c.dispatch._update(self.dispatch)\<close> copies the dispatch
  registrations of the original over to the new constraint. The result is the copy
  and, when its constructor attached it, the table.
\<close>

definition ExcludeConstraint_copy ::
  "expect_ddl_fn \<Rightarrow> expect_fn \<Rightarrow> check_attach_fn \<Rightarrow> base_set_parent_fn \<Rightarrow>
   copy_expression_fn \<Rightarrow> exclude_constraint \<Rightarrow> table option \<Rightarrow>
   error + (exclude_constraint \<times> table option)" where
  "ExcludeConstraint_copy expect_ddl expect check_attach base copy_expression self target_table =
     (case parent self of
        None \<Rightarrow> Inl (AttributeError ''parent'')
      | Some p \<Rightarrow>
          (let elements = map (\<lambda>(expr, _, operator). (copy_expression expr p target_table, operator))
                              (render_exprs self)
           in case ExcludeConstraint_init expect_ddl expect check_attach base elements
                     (copy_kw self) of
                Inl e \<Rightarrow> Inl e
              | Inr (c, tb) \<Rightarrow> Inr (c\<lparr>dispatch := dispatch c @ dispatch self\<rparr>, tb)))"

section \<open>The regconfig function family\<close>

datatype regconfig_class =
  to_tsvector | to_tsquery | plainto_tsquery | phraseto_tsquery | websearch_to_tsquery

fun class_name :: "regconfig_class \<Rightarrow> string" where
  "class_name to_tsvector = ''to_tsvector''"
| "class_name to_tsquery = ''to_tsquery''"
| "class_name plainto_tsquery = ''plainto_tsquery''"
| "class_name phraseto_tsquery = ''phraseto_tsquery''"
| "class_name websearch_to_tsquery = ''websearch_to_tsquery''"

fun class_type :: "regconfig_class \<Rightarrow> sqltype" where
  "class_type to_tsvector = Plain TSVECTOR"
| "class_type c = Plain TSQUERY"

text \<open>
  Modelled from the spec: \<open>GenericFunction.__init__\<close> (sql/functions.py is not part of
  the module) builds the function node that owns the ordered argument list.
\<close>

definition GenericFunction_init :: "string \<Rightarrow> sqltype \<Rightarrow> node list \<Rightarrow> node" where
  "GenericFunction_init nm ty parsed = FunctionElement nm parsed ty"

text \<open>The argument list \<open>_regconfig_fn.__init__\<close> hands to \<open>super().__init__\<close>:
  \<open>initial_arg + addtl_args\<close>, where \<open>args.pop(0)\<close> has removed the first argument
  when there is more than one.\<close>

definition regconfig_fn_args :: "expect_fn \<Rightarrow> pyarg list \<Rightarrow> error + node list" where
  "regconfig_fn_args expect args =
     (if length args > 1 then
        (case expect ExpressionElementRole (args ! 0) (Some (Plain REGCONFIG)) of
           Inl e \<Rightarrow> Inl e
         | Inr initial_arg \<Rightarrow>
             (case expect_each expect ExpressionElementRole (tl args) of
                Inl e \<Rightarrow> Inl e
              | Inr addtl_args \<Rightarrow> Inr ([initial_arg] @ addtl_args)))
      else
        (case expect_each expect ExpressionElementRole args of
           Inl e \<Rightarrow> Inl e
         | Inr addtl_args \<Rightarrow> Inr ([] @ addtl_args)))"

definition regconfig_fn_init :: "expect_fn \<Rightarrow> regconfig_class \<Rightarrow> pyarg list \<Rightarrow> error + node" where
  "regconfig_fn_init expect cls args =
     (case regconfig_fn_args expect args of
        Inl e \<Rightarrow> Inl e
      | Inr parsed \<Rightarrow> Inr (GenericFunction_init (class_name cls) (class_type cls) parsed))"

text \<open>\<open>isinstance(a, elements.ColumnElement) and a.type._type_affinity is types.TSQUERY\<close>.\<close>

definition is_tsquery_expr :: "pyarg \<Rightarrow> bool" where
  "is_tsquery_expr a =
     (case a of
        PyNode n \<Rightarrow> is_ColumnElement n \<and> map_option type_affinity (node_type n) = Some TSQUERY
      | _ \<Rightarrow> False)"

text \<open>The local \<open>has_regconfig\<close> of \<open>ts_headline.__init__\<close>.\<close>

definition ts_headline_has_regconfig :: "pyarg list \<Rightarrow> bool" where
  "ts_headline_has_regconfig args =
     (if length args < 2 then False
      else if is_tsquery_expr (args ! 1) then False
      else True)"

definition ts_headline_args :: "expect_fn \<Rightarrow> pyarg list \<Rightarrow> error + node list" where
  "ts_headline_args expect args =
     (if ts_headline_has_regconfig args then
        (case expect ExpressionElementRole (args ! 0) (Some (Plain REGCONFIG)) of
           Inl e \<Rightarrow> Inl e
         | Inr initial_arg \<Rightarrow>
             (case expect_each expect ExpressionElementRole (tl args) of
                Inl e \<Rightarrow> Inl e
              | Inr addtl_args \<Rightarrow> Inr ([initial_arg] @ addtl_args)))
      else
        (case expect_each expect ExpressionElementRole args of
           Inl e \<Rightarrow> Inl e
         | Inr addtl_args \<Rightarrow> Inr ([] @ addtl_args)))"

text \<open>
  \<open>ts_headline.__init__\<close>: its own argument list, handed to \<open>super().__init__\<close>. The
  class derives from \<open>_regconfig_fn\<close>, so that is \<open>_regconfig_fn.__init__\<close>, which
  builds its argument list once more from the nodes it receives and hands it to the
  generic function constructor.
\<close>

definition ts_headline_init :: "expect_fn \<Rightarrow> pyarg list \<Rightarrow> error + node" where
  "ts_headline_init expect args =
     (case ts_headline_args expect args of
        Inl e \<Rightarrow> Inl e
      | Inr parsed \<Rightarrow>
          (case regconfig_fn_args expect (map PyNode parsed) of
             Inl e \<Rightarrow> Inl e
           | Inr parsed' \<Rightarrow> Inr (GenericFunction_init ''ts_headline'' (Plain TEXT) parsed')))"

section \<open>DistinctOnClause\<close>

text \<open>What an extension slot of a statement can hold: a DISTINCT ON clause with its
  tuple \<open>_distinct_on\<close>, or any other clause element.\<close>

datatype clause_element = DistinctOnClause "node list" | OtherClause node

fun is_DistinctOnClause :: "clause_element \<Rightarrow> bool" where
  "is_DistinctOnClause (DistinctOnClause _) = True"
| "is_DistinctOnClause (OtherClause _) = False"

text \<open>\<open>DistinctOnClause.__init__(self, distinct_on)\<close>.\<close>

definition DistinctOnClause_init :: "expect_fn \<Rightarrow> pyarg list \<Rightarrow> error + clause_element" where
  "DistinctOnClause_init expect exprs =
     (case expect_each expect ByOfRole exprs of
        Inl e \<Rightarrow> Inl e
      | Inr ns \<Rightarrow> Inr (DistinctOnClause ns))"

text \<open>The \<open>for\<close> loop of \<open>_merge_other_distinct\<close>; the accumulator is \<open>res\<close> and
  \<open>to_merge\<close>.\<close>

fun merge_loop ::
  "clause_element list \<Rightarrow> clause_element list \<times> node list \<Rightarrow> clause_element list \<times> node list" where
  "merge_loop [] acc = acc"
| "merge_loop (DistinctOnClause d # es) (res, to_merge) = merge_loop es (res, to_merge @ d)"
| "merge_loop (OtherClause n # es) (res, to_merge) = merge_loop es (res @ [OtherClause n], to_merge)"

text \<open>\<open>DistinctOnClause._merge_other_distinct(self, existing)\<close>; \<open>self\<close> is given by its
  tuple \<open>_distinct_on\<close>. An empty \<open>to_merge\<close> is false.\<close>

definition merge_other_distinct ::
  "expect_fn \<Rightarrow> node list \<Rightarrow> clause_element list \<Rightarrow> error + clause_element list" where
  "merge_other_distinct expect self_distinct_on existing =
     (case merge_loop existing ([], []) of
        (res, to_merge) \<Rightarrow>
          (if to_merge \<noteq> [] then
             (case DistinctOnClause_init expect (map PyNode (to_merge @ self_distinct_on)) of
                Inl e \<Rightarrow> Inl e
              | Inr d \<Rightarrow> Inr (res @ [d]))
           else Inr (res @ [DistinctOnClause self_distinct_on])))"

text \<open>A SELECT statement as the extension sees it: the flag \<open>_distinct\<close>, the tuple
  \<open>_distinct_on\<close> of the legacy \<open>select.distinct(*cols)\<close>, and the contents of the
  extension slot \<open>pre_columns\<close>.\<close>

record select =
  sel_distinct :: bool
  sel_distinct_on :: "node list"
  pre_columns :: "clause_element list"

text \<open>
  Modelled from the spec: \<open>select_stmt.distinct.non_generative(select_stmt)\<close>
  (sql/selectable.py is not part of the module) marks the statement as DISTINCT, in
  place, and leaves the rest of it alone.
\<close>

definition distinct_non_generative :: "select \<Rightarrow> select" where
  "distinct_non_generative s = s\<lparr>sel_distinct := True\<rparr>"

text \<open>
  Modelled from the spec: \<open>apply_syntax_extension_point(apply_fn, "pre_columns")\<close>
  (sql/base.py is not part of the module). The callback receives the current contents
  of the slot and returns the new contents, which replace them; when the callback
  raises, the slot keeps what it had.
\<close>

definition apply_syntax_extension_point ::
  "(clause_element list \<Rightarrow> error + clause_element list) \<Rightarrow> select \<Rightarrow> select \<times> error option" where
  "apply_syntax_extension_point apply_fn s =
     (case apply_fn (pre_columns s) of
        Inl e \<Rightarrow> (s, Some e)
      | Inr new \<Rightarrow> (s\<lparr>pre_columns := new\<rparr>, None))"

text \<open>\<open>DistinctOnClause.apply_to_select(self, select_stmt)\<close>: the statement as the call
  leaves it, and the error if it raised.\<close>

definition apply_to_select :: "expect_fn \<Rightarrow> node list \<Rightarrow> select \<Rightarrow> select \<times> error option" where
  "apply_to_select expect self_distinct_on select_stmt =
     (if sel_distinct_on select_stmt \<noteq> [] then
        (select_stmt,
         Some (InvalidRequestError
           ''Cannot mix ``select.ext(distinct_on(...))`` and ``select.distinct(...)``''))
      else
        apply_syntax_extension_point (merge_other_distinct expect self_distinct_on)
          (distinct_non_generative select_stmt))"

text \<open>The tuples of the DISTINCT ON clauses of a slot, concatenated in slot order, and
  the other elements of the slot.\<close>

fun distinct_targets :: "clause_element list \<Rightarrow> node list" where
  "distinct_targets [] = []"
| "distinct_targets (DistinctOnClause d # es) = d @ distinct_targets es"
| "distinct_targets (OtherClause n # es) = distinct_targets es"

definition other_clauses :: "clause_element list \<Rightarrow> clause_element list" where
  "other_clauses es = filter (\<lambda>e. \<not> is_DistinctOnClause e) es"


section \<open>Concrete collaborators and sample data\<close>

text \<open>
  Modelled from the spec: the coercion of the DDL constraint column role on a value
  that is not a column-name string, for the concrete runs below (sql/coercions.py is
  not part of the module). A node is accepted after the role's compatibility check; a
  genuine table column is the column of the entry, a bare expression has none.
\<close>

definition coerce_ddl :: expect_ddl_fn where
  "coerce_ddl v =
     (case v of
        PyNode n \<Rightarrow>
          (if role_accepts DDLConstraintColumnRole n
           then Inr (n, case n of ColumnRef k \<Rightarrow> Some k | _ \<Rightarrow> None)
           else Inl (ArgumentError ''role mismatch''))
      | _ \<Rightarrow> Inl (ArgumentError ''unsupported value''))"

abbreviation col_a :: column where
  "col_a \<equiv> Column ''a'' (Plain Integer) (Some ''some_table'')"

abbreviation col_b :: column where
  "col_b \<equiv> Column ''b'' (Plain String) (Some ''some_table'')"

abbreviation col_period :: column where
  "col_period \<equiv> Column ''period'' (Plain NullType) (Some ''some_table'')"

text \<open>\<open>Column("period")\<close>, not bound to any table.\<close>

abbreviation col_period_adhoc :: column where
  "col_period_adhoc \<equiv> Column ''period'' (Plain NullType) None"

abbreviation col_group :: column where
  "col_group \<equiv> Column ''group'' (Plain String) (Some ''some_table'')"

definition some_table :: table where
  "some_table =
     \<lparr>table_name = ''some_table'',
      table_c = [''period'' \<mapsto> col_period, ''group'' \<mapsto> col_group],
      constraints = []\<rparr>"

text \<open>A table without the column \<open>group\<close>.\<close>

definition other_table :: table where
  "other_table =
     \<lparr>table_name = ''other_table'',
      table_c = [''period'' \<mapsto> Column ''period'' (Plain NullType) (Some ''other_table'')],
      constraints = []\<rparr>"

text \<open>\<open>some_table\<close> once a constraint named \<open>excl\<close> is registered with it.\<close>

definition some_table_excl :: table where
  "some_table_excl = some_table\<lparr>constraints := [PyStr ''excl'']\<rparr>"

text \<open>
  Modelled from the spec: the decision of the base constructor to attach a new
  constraint at once, for the concrete runs below (sql/schema.py is not part of the
  module). The spec says only that a constraint belongs to one parent table, set once
  via attachment. Here column arguments bound to exactly one table attach the
  constraint to that table, looked up among the tables given; columns of several
  tables are an error; nothing is attached without a table-bound column, nor while
  all arguments are columns and one of them is not bound to a table yet.
\<close>

fun bound_tables :: "pyarg list \<Rightarrow> string list" where
  "bound_tables [] = []"
| "bound_tables (PyNode (ColumnRef k) # cs) =
     (case col_table k of
        Some n \<Rightarrow> n # bound_tables cs
      | None \<Rightarrow> bound_tables cs)"
| "bound_tables (c # cs) = bound_tables cs"

fun is_column :: "pyarg \<Rightarrow> bool" where
  "is_column (PyNode (ColumnRef k)) = True"
| "is_column c = False"

fun is_unbound_column :: "pyarg \<Rightarrow> bool" where
  "is_unbound_column (PyNode (ColumnRef k)) = (col_table k = None)"
| "is_unbound_column c = False"

definition check_attach_in :: "(string \<rightharpoonup> table) \<Rightarrow> check_attach_fn" where
  "check_attach_in tables cols =
     (if list_ex is_unbound_column cols \<and> list_all is_column cols then Inr None
      else
        (case remdups (bound_tables cols) of
           [] \<Rightarrow> Inr None
         | [n] \<Rightarrow> Inr (tables n)
         | _ \<Rightarrow> Inl (ArgumentError ''Column(s) are not part of table'')))"

text \<open>The tables a column can be bound to, before any constraint is registered.\<close>

definition sample_tables :: "string \<rightharpoonup> table" where
  "sample_tables = [''some_table'' \<mapsto> some_table, ''other_table'' \<mapsto> other_table]"

text \<open>\<open>ExcludeConstraint((Column("period"), "&&"), ("group", "="), name="excl",
  ops={"group": "my_operator_class"})\<close>: no argument is bound to a table, so the
  constraint is not attached yet.\<close>

definition pending_constraint :: exclude_constraint where
  "pending_constraint =
     \<lparr>render_exprs = [(PyNode (ColumnRef col_period_adhoc), Some ''period'', ''&&''),
                      (PyStr ''group'', Some ''group'', ''='')],
      operators = [''period'' \<mapsto> ''&&'', ''group'' \<mapsto> ''=''],
      columns = [PyNode (ColumnRef col_period_adhoc), PyStr ''group''],
      ec_name = PyStr ''excl'', deferrable = PyNone, initially = PyNone,
      ec_using = PyStr ''gist'', ec_where = None,
      ops = PyDict [(''group'', ''my_operator_class'')],
      parent = None, dispatch = []\<rparr>"

text \<open>The same constraint once attached to \<open>some_table\<close>.\<close>

definition attached_constraint :: exclude_constraint where
  "attached_constraint =
     pending_constraint
       \<lparr>render_exprs := [(PyNode (ColumnRef col_period_adhoc), Some ''period'', ''&&''),
                         (PyNode (ColumnRef col_group), Some ''group'', ''='')],
        columns := [PyNode (ColumnRef col_period_adhoc), PyNode (ColumnRef col_group)],
        parent := Some ''some_table''\<rparr>"

text \<open>\<open>ExcludeConstraint((some_table.c.period, "&&"), ("group", "="), name="excl",
  ops={"group": "my_operator_class"})\<close>: the first argument is a column of
  \<open>some_table\<close>, so the constructor attaches the constraint to that table and the name
  \<open>group\<close> is resolved at once.\<close>

definition resolved_constraint :: exclude_constraint where
  "resolved_constraint =
     \<lparr>render_exprs = [(PyNode (ColumnRef col_period), Some ''period'', ''&&''),
                      (PyNode (ColumnRef col_group), Some ''group'', ''='')],
      operators = [''period'' \<mapsto> ''&&'', ''group'' \<mapsto> ''=''],
      columns = [PyNode (ColumnRef col_period), PyNode (ColumnRef col_group)],
      ec_name = PyStr ''excl'', deferrable = PyNone, initially = PyNone,
      ec_using = PyStr ''gist'', ec_where = None,
      ops = PyDict [(''group'', ''my_operator_class'')],
      parent = Some ''some_table'', dispatch = []\<rparr>"

text \<open>
  Modelled from the spec: \<open>schema._copy_expression\<close>, the "copy expression for new
  table" operation, for the concrete runs below (sql/schema.py is not part of the
  module). Without a target table the expression is returned as it is; otherwise every
  column of the source table that the target table has under the same name is replaced
  by the target's column.
\<close>

fun copy_node :: "string \<Rightarrow> table \<Rightarrow> node \<Rightarrow> node" where
  "copy_node src tgt (ColumnRef k) =
     (if col_table k = Some src then
        (case table_c tgt (col_name k) of
           Some k' \<Rightarrow> ColumnRef k'
         | None \<Rightarrow> ColumnRef k)
      else ColumnRef k)"
| "copy_node src tgt (FunctionElement nm args ty) =
     FunctionElement nm (map (copy_node src tgt) args) ty"
| "copy_node src tgt (ClauseList ns) = ClauseList (map (copy_node src tgt) ns)"
| "copy_node src tgt (BindParameter v ty) = BindParameter v ty"
| "copy_node src tgt (TextClause txt) = TextClause txt"

definition schema_copy_expression :: copy_expression_fn where
  "schema_copy_expression expr src target_table =
     (case target_table of
        None \<Rightarrow> expr
      | Some tgt \<Rightarrow>
          (case expr of
             PyNode n \<Rightarrow> PyNode (copy_node src tgt n)
           | _ \<Rightarrow> expr))"

text \<open>
  What the theorems on attachment assume of the base class's step, which is outside
  the module: it neither rewrites \<open>_render_exprs\<close>, an attribute the subclass alone
  defines, nor changes the column collection of the table.
\<close>

definition base_keeps :: "base_set_parent_fn \<Rightarrow> exclude_constraint \<Rightarrow> table \<Rightarrow> bool" where
  "base_keeps base self t =
     (case base self t of
        (self1, t1, r) \<Rightarrow> render_exprs self1 = render_exprs self \<and> table_c t1 = table_c t)"



text \<open>A base class's step that leaves the modifiers and the dispatch registrations of
  the constraint as they are.\<close>

definition base_keeps_modifiers :: "base_set_parent_fn \<Rightarrow> exclude_constraint \<Rightarrow> table \<Rightarrow> bool" where
  "base_keeps_modifiers base self t =
     (case base self t of
        (self1, t1, r) \<Rightarrow>
          ec_name self1 = ec_name self \<and> deferrable self1 = deferrable self \<and>
          initially self1 = initially self \<and> ec_where self1 = ec_where self \<and>
          dispatch self1 = dispatch self)"

text \<open>
  A coercion that returns unchanged, whatever the type override, a node it has itself
  produced under the expression role: a value that is already a tree node is returned
  as it is.
\<close>

definition expect_idempotent :: "expect_fn \<Rightarrow> bool" where
  "expect_idempotent expect =
     (\<forall>v ty n ty'. expect ExpressionElementRole v ty = Inr n \<longrightarrow>
        expect ExpressionElementRole (PyNode n) ty' = Inr n)"

section \<open>Coercing a list\<close>

lemma expect_each_length:
  "expect_each expect r cs = Inr ns \<Longrightarrow> length ns = length cs"
  by (induction cs arbitrary: ns) (auto split: sum.splits)

lemma expect_each_nth:
  "expect_each expect r cs = Inr ns \<Longrightarrow> i < length cs \<Longrightarrow> expect r (cs ! i) None = Inr (ns ! i)"
proof (induction cs arbitrary: ns i)
  case Nil
  then show ?case by simp
next
  case (Cons c cs)
  then show ?case by (cases i) (auto split: sum.splits)
qed

lemma expect_each_total:
  "(\<And>i. i < length cs \<Longrightarrow> expect r (cs ! i) None = Inr (f i)) \<Longrightarrow>
   expect_each expect r cs = Inr (map f [0..<length cs])"
proof (induction cs arbitrary: f)
  case Nil
  then show ?case by simp
next
  case (Cons c cs)
  have hd: "expect r c None = Inr (f 0)" using Cons.prems [of 0] by simp
  have tl: "expect_each expect r cs = Inr (map (\<lambda>i. f (Suc i)) [0..<length cs])"
    by (rule Cons.IH) (use Cons.prems [of "Suc _"] in simp)
  have "map f [0..<length (c # cs)] = f 0 # map (\<lambda>i. f (Suc i)) [0..<length cs]"
    by (simp add: upt_conv_Cons map_Suc_upt [symmetric] del: upt_Suc)
  with hd tl show ?case by simp
qed

lemma node_not_own_wrapper: "n \<noteq> ClauseList [n]"
proof
  assume "n = ClauseList [n]"
  then have "size n = size (ClauseList [n])" by (rule arg_cong)
  then show False by simp
qed

section \<open>aggregate_order_by: arity of the ORDER BY terms\<close>

lemma aggregate_order_by_none:
  "\<exists>e. aggregate_order_by_init expect tgt [] = Inl e"
  by (simp add: aggregate_order_by_init_def split: sum.splits option.splits)

lemma aggregate_order_by_one:
  "aggregate_order_by_init expect tgt [x] = Inr a \<Longrightarrow>
   expect ExpressionElementRole x None = Inr (order_by a) \<and> order_by a \<noteq> ClauseList [order_by a]"
  by (auto simp: aggregate_order_by_init_def node_not_own_wrapper split: sum.splits option.splits)

lemma aggregate_order_by_many:
  "2 \<le> length terms \<Longrightarrow> aggregate_order_by_init expect tgt terms = Inr a \<Longrightarrow>
   \<exists>ns. order_by a = ClauseList ns \<and> length ns = length terms \<and>
        (\<forall>i<length terms. expect ExpressionElementRole (terms ! i) None = Inr (ns ! i))"
  by (auto simp: aggregate_order_by_init_def ClauseList_init_def Let_def
        expect_each_length expect_each_nth split: sum.splits option.splits if_splits)

lemma aggregate_order_by_succeeds:
  "terms \<noteq> [] \<Longrightarrow> expect ExpressionElementRole tgt None = Inr t \<Longrightarrow> node_type t = Some ty \<Longrightarrow>
   (\<forall>i<length terms. expect ExpressionElementRole (terms ! i) None = Inr (f i)) \<Longrightarrow>
   \<exists>a. aggregate_order_by_init expect tgt terms = Inr a"
  using expect_each_total [of terms expect ExpressionElementRole f]
  by (auto simp: aggregate_order_by_init_def ClauseList_init_def Let_def
        split: sum.splits option.splits if_splits)

text \<open>
  C1. Whatever the coercion does, a call of the \<open>aggregate_order_by\<close> constructor with no
  ORDER BY term raises. With one term, a constructed node stores as \<open>order_by\<close> the
  coercion of that term under the expression role, and not a list wrapper around it.
  With two or more terms it stores a list wrapper with one child per term, the i-th
  child being the coercion of the i-th term. The constructor does return a node when
  the target coerces to a typed node and every term coerces.
\<close>

theorem aggregate_order_by_arity:
  "(\<exists>e. aggregate_order_by_init expect tgt [] = Inl e) \<and>
   (\<forall>x a. aggregate_order_by_init expect tgt [x] = Inr a \<longrightarrow>
      expect ExpressionElementRole x None = Inr (order_by a) \<and>
      order_by a \<noteq> ClauseList [order_by a]) \<and>
   (\<forall>terms a. 2 \<le> length terms \<and> aggregate_order_by_init expect tgt terms = Inr a \<longrightarrow>
      (\<exists>ns. order_by a = ClauseList ns \<and> length ns = length terms \<and>
         (\<forall>i<length terms. expect ExpressionElementRole (terms ! i) None = Inr (ns ! i)))) \<and>
   (\<forall>terms t ty f. terms \<noteq> [] \<and> expect ExpressionElementRole tgt None = Inr t \<and>
      node_type t = Some ty \<and>
      (\<forall>i<length terms. expect ExpressionElementRole (terms ! i) None = Inr (f i)) \<longrightarrow>
      (\<exists>a. aggregate_order_by_init expect tgt terms = Inr a))"
proof (intro conjI allI impI)
  show "\<exists>e. aggregate_order_by_init expect tgt [] = Inl e"
    by (rule aggregate_order_by_none)
next
  fix x a assume "aggregate_order_by_init expect tgt [x] = Inr a"
  from aggregate_order_by_one [OF this]
  show "expect ExpressionElementRole x None = Inr (order_by a)"
    and "order_by a \<noteq> ClauseList [order_by a]" by simp_all
next
  fix terms a
  assume "2 \<le> length terms \<and> aggregate_order_by_init expect tgt terms = Inr a"
  then show "\<exists>ns. order_by a = ClauseList ns \<and> length ns = length terms \<and>
      (\<forall>i<length terms. expect ExpressionElementRole (terms ! i) None = Inr (ns ! i))"
    using aggregate_order_by_many by blast
next
  fix terms t ty f
  assume "terms \<noteq> [] \<and> expect ExpressionElementRole tgt None = Inr t \<and>
      node_type t = Some ty \<and>
      (\<forall>i<length terms. expect ExpressionElementRole (terms ! i) None = Inr (f i))"
  then show "\<exists>a. aggregate_order_by_init expect tgt terms = Inr a"
    using aggregate_order_by_succeeds by blast
qed

theorem aggregate_order_by_arity_witness:
  "aggregate_order_by_init coerce (PyNode (ColumnRef col_a)) [] =
     Inl (TypeError ''at least one ORDER BY element is required'') \<and>
   aggregate_order_by_init coerce (PyNode (ColumnRef col_a)) [PyNode (ColumnRef col_b)] =
     Inr \<lparr>target = ColumnRef col_a, aob_type = Plain Integer, order_by = ColumnRef col_b\<rparr> \<and>
   coerce ExpressionElementRole (PyNode (ColumnRef col_b)) None = Inr (ColumnRef col_b) \<and>
   2 \<le> length [PyNode (ColumnRef col_b), PyStr '',''] \<and>
   aggregate_order_by_init coerce (PyNode (ColumnRef col_a)) [PyNode (ColumnRef col_b), PyStr '',''] =
     Inr \<lparr>target = ColumnRef col_a, aob_type = Plain Integer,
          order_by = ClauseList [ColumnRef col_b, BindParameter (LitStr '','') (Plain String)]\<rparr>"
  using aggregate_order_by_arity [of coerce "PyNode (ColumnRef col_a)"]
  by (simp add: aggregate_order_by_init_def ClauseList_init_def wrap_literal_def)

section \<open>ExcludeConstraint: the comprehension of \<open>_set_parent\<close>\<close>


lemma resolve_expr_other:
  "(\<forall>s. expr \<noteq> PyStr s) \<Longrightarrow> resolve_expr t expr = Inr expr"
  by (cases expr) (simp_all add: resolve_expr_def)

lemma resolve_exprs_entries:
  "resolve_exprs t rs = Inr rs' \<Longrightarrow>
   length rs' = length rs \<and>
   (\<forall>i<length rs. \<exists>expr'. resolve_expr t (fst (rs ! i)) = Inr expr' \<and>
        rs' ! i = (expr', fst (snd (rs ! i)), snd (snd (rs ! i))))"
proof (induction rs arbitrary: rs')
  case Nil
  then show ?case by simp
next
  case (Cons r rs)
  obtain expr nm oper where r: "r = (expr, nm, oper)" by (cases r)
  from Cons.prems r obtain expr' rest where
    hd: "resolve_expr t expr = Inr expr'" and tl: "resolve_exprs t rs = Inr rest"
    and rs': "rs' = (expr', nm, oper) # rest"
    by (auto split: sum.splits)
  from Cons.IH [OF tl] have
    len: "length rest = length rs" and
    nth: "\<And>i. i < length rs \<Longrightarrow> \<exists>expr'. resolve_expr t (fst (rs ! i)) = Inr expr' \<and>
        rest ! i = (expr', fst (snd (rs ! i)), snd (snd (rs ! i)))"
    by blast+
  show ?case
  proof (intro conjI allI impI)
    show "length rs' = length (r # rs)" using rs' len by simp
  next
    fix i assume i: "i < length (r # rs)"
    show "\<exists>expr'. resolve_expr t (fst ((r # rs) ! i)) = Inr expr' \<and>
        rs' ! i = (expr', fst (snd ((r # rs) ! i)), snd (snd ((r # rs) ! i)))"
    proof (cases i)
      case 0
      then show ?thesis using r hd rs' by simp
    next
      case (Suc j)
      with i nth [of j] rs' show ?thesis by simp
    qed
  qed
qed



lemma set_parent_success:
  assumes "set_parent base self t = (self', t', None)"
  shows "\<exists>self1 rs. base self t = (self1, t', None) \<and>
           resolve_exprs t' (render_exprs self1) = Inr rs \<and> self' = self1\<lparr>render_exprs := rs\<rparr>"
  using assms by (auto simp: set_parent_def split: prod.splits option.splits sum.splits)

lemma set_parent_frame_aux:
  assumes sp: "set_parent base self t = (self', t', None)" and keeps: "base_keeps base self t"
  shows "length (render_exprs self') = length (render_exprs self) \<and>
     (\<forall>i<length (render_exprs self). \<exists>expr'.
        resolve_expr t' (fst (render_exprs self ! i)) = Inr expr' \<and>
        render_exprs self' ! i =
          (expr', fst (snd (render_exprs self ! i)), snd (snd (render_exprs self ! i)))) \<and>
     table_c t' = table_c t"
proof -
  from set_parent_success [OF sp] obtain self1 rs where
    b: "base self t = (self1, t', None)" and
    r: "resolve_exprs t' (render_exprs self1) = Inr rs" and
    s: "self' = self1\<lparr>render_exprs := rs\<rparr>" by blast
  from keeps b have k: "render_exprs self1 = render_exprs self" "table_c t' = table_c t"
    by (simp_all add: base_keeps_def)
  from resolve_exprs_entries [OF r] k s show ?thesis by simp
qed



section \<open>ExcludeConstraint: construction\<close>

lemma init_loop_entries:
  "init_loop ex es (cols, rs, opers) = Inr (cols', rs', opers') \<Longrightarrow>
   \<exists>new. rs' = rs @ new \<and> length new = length es \<and>
     (\<forall>i<length es. \<exists>expr col strname add.
        expect_col_expression ex (fst (es ! i)) = Inr (expr, col, strname, add) \<and>
        new ! i = (expr, (case col of Some k \<Rightarrow> Some (col_name k) | None \<Rightarrow> strname), snd (es ! i)))"
proof (induction es arbitrary: cols rs opers)
  case Nil
  then show ?case by simp
next
  case (Cons p es)
  obtain e operator where p: "p = (e, operator)" by (cases p)
  from Cons.prems p obtain expr col strname add where
    ece: "expect_col_expression ex e = Inr (expr, col, strname, add)"
    by (auto split: sum.splits)
  let ?name = "case col of Some k \<Rightarrow> Some (col_name k) | None \<Rightarrow> strname"
  let ?cols = "case add of None \<Rightarrow> cols | Some a \<Rightarrow> cols @ [a]"
  let ?opers = "case ?name of Some n \<Rightarrow> opers(n \<mapsto> operator) | None \<Rightarrow> opers"
  from Cons.prems p ece have
    rest: "init_loop ex es (?cols, rs @ [(expr, ?name, operator)], ?opers) = Inr (cols', rs', opers')"
    by (simp add: Let_def)
  from Cons.IH [OF rest] obtain new where
    new: "rs' = (rs @ [(expr, ?name, operator)]) @ new" "length new = length es"
      "\<forall>i<length es. \<exists>expr col strname add.
        expect_col_expression ex (fst (es ! i)) = Inr (expr, col, strname, add) \<and>
        new ! i = (expr, (case col of Some k \<Rightarrow> Some (col_name k) | None \<Rightarrow> strname), snd (es ! i))"
    by blast
  let ?new = "(expr, ?name, operator) # new"
  have "rs' = rs @ ?new" using new(1) by simp
  moreover have "length ?new = length (p # es)" using new(2) by simp
  moreover have "\<forall>i<length (p # es). \<exists>expr col strname add.
        expect_col_expression ex (fst ((p # es) ! i)) = Inr (expr, col, strname, add) \<and>
        ?new ! i = (expr, (case col of Some k \<Rightarrow> Some (col_name k) | None \<Rightarrow> strname), snd ((p # es) ! i))"
  proof (intro allI impI)
    fix i assume "i < length (p # es)"
    then show "\<exists>expr col strname add.
        expect_col_expression ex (fst ((p # es) ! i)) = Inr (expr, col, strname, add) \<and>
        ?new ! i = (expr, (case col of Some k \<Rightarrow> Some (col_name k) | None \<Rightarrow> strname), snd ((p # es) ! i))"
      using new(3) ece p by (cases i) auto
  qed
  ultimately show ?case by blast
qed


lemma base_init_result:
  assumes "ColumnCollectionConstraint_init check_attach base self cols nm dfr ini = Inr (self1, tb)"
  shows "(tb = None \<and>
          self1 = self\<lparr>columns := cols, ec_name := nm, deferrable := dfr, initially := ini\<rparr>) \<or>
         (\<exists>t t1. check_attach cols = Inr (Some t) \<and> tb = Some t1 \<and>
            set_parent base
              (self\<lparr>columns := cols, ec_name := nm, deferrable := dfr, initially := ini\<rparr>) t =
              (self1, t1, None))"
  using assms
  by (auto simp: ColumnCollectionConstraint_init_def Let_def
        split: sum.splits option.splits prod.splits)

lemma init_result:
  assumes "ExcludeConstraint_init ex expect check_attach base elements kw = Inr (c, tb)"
  shows "elements \<noteq> [] \<and>
     (\<exists>cols rs opers self1 wh.
        init_loop ex elements ([], [], Map.empty) = Inr (cols, rs, opers) \<and>
        ColumnCollectionConstraint_init check_attach base
          (new_constraint\<lparr>render_exprs := rs, operators := opers\<rparr>) cols
          (kw_get kw ''name'' PyNone) (kw_get kw ''deferrable'' PyNone)
          (kw_get kw ''initially'' PyNone) = Inr (self1, tb) \<and>
        coerce_where expect kw = Inr wh \<and>
        c = (case wh of None \<Rightarrow> self1 | Some n \<Rightarrow> self1\<lparr>ec_where := Some n\<rparr>)
              \<lparr>ec_using := kw_get kw ''using'' (PyStr ''gist''),
               ops := kw_get kw ''ops'' (PyDict [])\<rparr>)"
proof -
  from assms have ne: "elements \<noteq> []"
    by (auto simp: ExcludeConstraint_init_def unzip_elements_def split: if_splits)
  with assms show ?thesis
    by (auto simp: ExcludeConstraint_init_def unzip_elements_def zip_map_fst_snd
          split: sum.splits prod.splits)
qed

lemma init_render_exprs_of:
  assumes "ExcludeConstraint_init ex expect check_attach base elements kw = Inr (c, tb)"
  shows "\<exists>self1. render_exprs c = render_exprs self1 \<and> columns c = columns self1 \<and>
           (\<exists>cols rs opers.
              init_loop ex elements ([], [], Map.empty) = Inr (cols, rs, opers) \<and>
              ColumnCollectionConstraint_init check_attach base
                (new_constraint\<lparr>render_exprs := rs, operators := opers\<rparr>) cols
                (kw_get kw ''name'' PyNone) (kw_get kw ''deferrable'' PyNone)
                (kw_get kw ''initially'' PyNone) = Inr (self1, tb))"
proof -
  from init_result [OF assms] obtain cols rs opers self1 wh where
    l: "init_loop ex elements ([], [], Map.empty) = Inr (cols, rs, opers)" and
    b: "ColumnCollectionConstraint_init check_attach base
          (new_constraint\<lparr>render_exprs := rs, operators := opers\<rparr>) cols
          (kw_get kw ''name'' PyNone) (kw_get kw ''deferrable'' PyNone)
          (kw_get kw ''initially'' PyNone) = Inr (self1, tb)" and
    c: "c = (case wh of None \<Rightarrow> self1 | Some n \<Rightarrow> self1\<lparr>ec_where := Some n\<rparr>)
              \<lparr>ec_using := kw_get kw ''using'' (PyStr ''gist''),
               ops := kw_get kw ''ops'' (PyDict [])\<rparr>"
    by blast
  from c have "render_exprs c = render_exprs self1" "columns c = columns self1"
    by (cases wh; simp)+
  with l b show ?thesis by blast
qed

lemma init_entries:
  assumes init: "ExcludeConstraint_init ex expect check_attach base elements kw = Inr (c, tb)"
    and keeps: "tb \<noteq> None \<longrightarrow> (\<forall>self t. base_keeps base self t)"
  shows "elements \<noteq> [] \<and> length (render_exprs c) = length elements \<and>
     (\<forall>i<length elements. \<exists>expr col strname add.
        expect_col_expression ex (fst (elements ! i)) = Inr (expr, col, strname, add) \<and>
        (case tb of
           None \<Rightarrow> fst (render_exprs c ! i) = expr
         | Some t \<Rightarrow> resolve_expr t expr = Inr (fst (render_exprs c ! i))) \<and>
        fst (snd (render_exprs c ! i)) = (case col of Some k \<Rightarrow> Some (col_name k) | None \<Rightarrow> strname) \<and>
        snd (snd (render_exprs c ! i)) = snd (elements ! i))"
proof -
  from init_result [OF init] have ne: "elements \<noteq> []" by blast
  from init_render_exprs_of [OF init] obtain self1 cols rs opers where
    rc: "render_exprs c = render_exprs self1" and
    l: "init_loop ex elements ([], [], Map.empty) = Inr (cols, rs, opers)" and
    b: "ColumnCollectionConstraint_init check_attach base
          (new_constraint\<lparr>render_exprs := rs, operators := opers\<rparr>) cols
          (kw_get kw ''name'' PyNone) (kw_get kw ''deferrable'' PyNone)
          (kw_get kw ''initially'' PyNone) = Inr (self1, tb)"
    by blast
  from init_loop_entries [OF l] have
    len: "length rs = length elements" and
    ent: "\<And>i. i < length elements \<Longrightarrow> \<exists>expr col strname add.
        expect_col_expression ex (fst (elements ! i)) = Inr (expr, col, strname, add) \<and>
        rs ! i = (expr, (case col of Some k \<Rightarrow> Some (col_name k) | None \<Rightarrow> strname), snd (elements ! i))"
    by auto
  let ?self0 = "new_constraint\<lparr>render_exprs := rs, operators := opers, columns := cols,
      ec_name := kw_get kw ''name'' PyNone, deferrable := kw_get kw ''deferrable'' PyNone,
      initially := kw_get kw ''initially'' PyNone\<rparr>"
  from base_init_result [OF b] consider
    (unattached) "tb = None" "self1 = ?self0"
  | (attached) t t1 where "check_attach cols = Inr (Some t)" "tb = Some t1"
      "set_parent base ?self0 t = (self1, t1, None)"
    by auto
  then show ?thesis
  proof cases
    case unattached
    then have r: "render_exprs c = rs" using rc by simp
    show ?thesis
    proof (intro conjI allI impI)
      show "elements \<noteq> []" by (rule ne)
      show "length (render_exprs c) = length elements" using r len by simp
    next
      fix i assume "i < length elements"
      from ent [OF this] r unattached(1)
      show "\<exists>expr col strname add.
        expect_col_expression ex (fst (elements ! i)) = Inr (expr, col, strname, add) \<and>
        (case tb of
           None \<Rightarrow> fst (render_exprs c ! i) = expr
         | Some t \<Rightarrow> resolve_expr t expr = Inr (fst (render_exprs c ! i))) \<and>
        fst (snd (render_exprs c ! i)) = (case col of Some k \<Rightarrow> Some (col_name k) | None \<Rightarrow> strname) \<and>
        snd (snd (render_exprs c ! i)) = snd (elements ! i)"
        by fastforce
    qed
  next
    case attached
    with keeps have k: "base_keeps base ?self0 t" by simp
    from set_parent_frame_aux [OF attached(3) k] have
      len1: "length (render_exprs self1) = length rs" and
      ent1: "\<And>i. i < length rs \<Longrightarrow> \<exists>expr'. resolve_expr t1 (fst (rs ! i)) = Inr expr' \<and>
          render_exprs self1 ! i = (expr', fst (snd (rs ! i)), snd (snd (rs ! i)))"
      by auto
    show ?thesis
    proof (intro conjI allI impI)
      show "elements \<noteq> []" by (rule ne)
      show "length (render_exprs c) = length elements" using rc len len1 by simp
    next
      fix i assume i: "i < length elements"
      from ent [OF i] obtain expr col strname add where
        e: "expect_col_expression ex (fst (elements ! i)) = Inr (expr, col, strname, add)"
           "rs ! i = (expr, (case col of Some k \<Rightarrow> Some (col_name k) | None \<Rightarrow> strname), snd (elements ! i))"
        by blast
      from ent1 [of i] i len obtain expr' where
        r: "resolve_expr t1 (fst (rs ! i)) = Inr expr'"
           "render_exprs self1 ! i = (expr', fst (snd (rs ! i)), snd (snd (rs ! i)))"
        by auto
      from r(1) e(2) have "resolve_expr t1 expr = Inr expr'" by simp
      with e r(2) rc attached(2)
      show "\<exists>expr col strname add.
        expect_col_expression ex (fst (elements ! i)) = Inr (expr, col, strname, add) \<and>
        (case tb of
           None \<Rightarrow> fst (render_exprs c ! i) = expr
         | Some t \<Rightarrow> resolve_expr t expr = Inr (fst (render_exprs c ! i))) \<and>
        fst (snd (render_exprs c ! i)) = (case col of Some k \<Rightarrow> Some (col_name k) | None \<Rightarrow> strname) \<and>
        snd (snd (render_exprs c ! i)) = snd (elements ! i)"
        by (intro exI [of _ expr] exI [of _ col] exI [of _ strname] exI [of _ add]) auto
    qed
  qed
qed

subsection \<open>Sample constructions\<close>

lemma base_keeps_sample: "base_keeps ColumnCollectionConstraint_set_parent self t"
  by (simp add: base_keeps_def ColumnCollectionConstraint_set_parent_def Let_def split: sum.splits)

lemma build_pending:
  "ExcludeConstraint_init coerce_ddl coerce (check_attach_in sample_tables)
     ColumnCollectionConstraint_set_parent
     [(PyNode (ColumnRef col_period_adhoc), ''&&''), (PyStr ''group'', ''='')]
     [''name'' \<mapsto> PyStr ''excl'', ''ops'' \<mapsto> PyDict [(''group'', ''my_operator_class'')]] =
   Inr (pending_constraint, None)"
  by (simp add: ExcludeConstraint_init_def unzip_elements_def coerce_ddl_def
        ColumnCollectionConstraint_init_def check_attach_in_def new_constraint_def
        coerce_where_def kw_get_def pending_constraint_def)

lemma build_resolved:
  "ExcludeConstraint_init coerce_ddl coerce (check_attach_in sample_tables)
     ColumnCollectionConstraint_set_parent
     [(PyNode (ColumnRef col_period), ''&&''), (PyStr ''group'', ''='')]
     [''name'' \<mapsto> PyStr ''excl'', ''ops'' \<mapsto> PyDict [(''group'', ''my_operator_class'')]] =
   Inr (resolved_constraint, Some some_table_excl)"
  by (simp add: ExcludeConstraint_init_def unzip_elements_def coerce_ddl_def
        ColumnCollectionConstraint_init_def check_attach_in_def new_constraint_def
        sample_tables_def some_table_def some_table_excl_def
        set_parent_def ColumnCollectionConstraint_set_parent_def lookup_column_def resolve_expr_def
        coerce_where_def kw_get_def resolved_constraint_def)

text \<open>
  C4. A constraint constructed from N (expression, operator) pairs has a render list
  of length N whose i-th entry stems from the i-th pair: its operator is that pair's
  operator, its name is the one the coercion of that pair's expression gives, and its
  expression is that coerced expression, or, when the constructor has attached the
  constraint to a table, what \<open>_set_parent\<close> makes of it on that table (a column name
  replaced by the table's column, anything else kept). For the attached case the base
  class's step is assumed to keep the render list and the table's columns.
\<close>

theorem exclude_constraint_positional:
  assumes "ExcludeConstraint_init ex expect check_attach base elements kw = Inr (c, tb)"
    and "tb \<noteq> None \<longrightarrow> (\<forall>self t. base_keeps base self t)"
  shows "length (render_exprs c) = length elements \<and>
     (\<forall>i<length elements. \<exists>expr col strname add.
        expect_col_expression ex (fst (elements ! i)) = Inr (expr, col, strname, add) \<and>
        (case tb of
           None \<Rightarrow> fst (render_exprs c ! i) = expr
         | Some t \<Rightarrow> resolve_expr t expr = Inr (fst (render_exprs c ! i))) \<and>
        fst (snd (render_exprs c ! i)) = (case col of Some k \<Rightarrow> Some (col_name k) | None \<Rightarrow> strname) \<and>
        snd (snd (render_exprs c ! i)) = snd (elements ! i))"
  using init_entries [OF assms] by blast

theorem exclude_constraint_positional_witness:
  "ExcludeConstraint_init coerce_ddl coerce (check_attach_in sample_tables)
     ColumnCollectionConstraint_set_parent
     [(PyNode (ColumnRef col_period_adhoc), ''&&''), (PyStr ''group'', ''='')]
     [''name'' \<mapsto> PyStr ''excl'', ''ops'' \<mapsto> PyDict [(''group'', ''my_operator_class'')]] =
   Inr (pending_constraint, None) \<and>
   render_exprs pending_constraint =
     [(PyNode (ColumnRef col_period_adhoc), Some ''period'', ''&&''),
      (PyStr ''group'', Some ''group'', ''='')] \<and>
   ExcludeConstraint_init coerce_ddl coerce (check_attach_in sample_tables)
     ColumnCollectionConstraint_set_parent
     [(PyNode (ColumnRef col_period), ''&&''), (PyStr ''group'', ''='')]
     [''name'' \<mapsto> PyStr ''excl'', ''ops'' \<mapsto> PyDict [(''group'', ''my_operator_class'')]] =
   Inr (resolved_constraint, Some some_table_excl) \<and>
   render_exprs resolved_constraint =
     [(PyNode (ColumnRef col_period), Some ''period'', ''&&''),
      (PyNode (ColumnRef col_group), Some ''group'', ''='')] \<and>
   length (render_exprs pending_constraint) = 2 \<and>
   length (render_exprs resolved_constraint) = 2"
proof -
  have k: "Some some_table_excl \<noteq> None \<longrightarrow>
      (\<forall>self t. base_keeps ColumnCollectionConstraint_set_parent self t)"
    by (simp add: base_keeps_sample)
  have k0: "(None :: table option) \<noteq> None \<longrightarrow>
      (\<forall>self t. base_keeps ColumnCollectionConstraint_set_parent self t)"
    by simp
  from exclude_constraint_positional [OF build_pending k0]
    exclude_constraint_positional [OF build_resolved k]
  have "length (render_exprs pending_constraint) = 2"
    and "length (render_exprs resolved_constraint) = 2" by simp_all
  with build_pending build_resolved show ?thesis
    by (simp add: pending_constraint_def resolved_constraint_def)
qed

text \<open>
  C7, as the code has it. The constructor called with no (expression, operator) pair
  raises: \<open>zip(*elements)\<close> is empty and cannot be unpacked into \<open>expressions\<close> and
  \<open>operators\<close>. No constraint with an empty render list is produced.
\<close>

theorem exclude_constraint_zero_elements:
  "ExcludeConstraint_init ex expect check_attach base [] kw =
     Inl (ValueError ''not enough values to unpack (expected 2, got 0)'')"
  by (simp add: ExcludeConstraint_init_def unzip_elements_def)

theorem exclude_constraint_zero_elements_counterexample:
  "ExcludeConstraint_init coerce_ddl coerce (check_attach_in sample_tables)
     ColumnCollectionConstraint_set_parent [] Map.empty =
     Inl (ValueError ''not enough values to unpack (expected 2, got 0)'')"
  by (simp add: ExcludeConstraint_init_def unzip_elements_def)

section \<open>ExcludeConstraint: attachment to a table\<close>






lemma attach_some_table:
  "set_parent ColumnCollectionConstraint_set_parent pending_constraint some_table =
     (attached_constraint, some_table_excl, None)"
  by (simp add: set_parent_def ColumnCollectionConstraint_set_parent_def pending_constraint_def
        attached_constraint_def some_table_def some_table_excl_def resolve_expr_def
        lookup_column_def)










text \<open>
  C9. A successful attachment, with a base class's step that keeps the render list,
  keeps the length and the order of the render list, the name and the operator of
  every entry, and the expression of every entry whose expression is not a bare string.
\<close>

theorem set_parent_frame:
  assumes "set_parent base self t = (self', t', None)" and "base_keeps base self t"
  shows "length (render_exprs self') = length (render_exprs self) \<and>
     (\<forall>i<length (render_exprs self).
        fst (snd (render_exprs self' ! i)) = fst (snd (render_exprs self ! i)) \<and>
        snd (snd (render_exprs self' ! i)) = snd (snd (render_exprs self ! i)) \<and>
        ((\<forall>s. fst (render_exprs self ! i) \<noteq> PyStr s) \<longrightarrow>
           fst (render_exprs self' ! i) = fst (render_exprs self ! i)))"
proof (intro conjI allI impI)
  show "length (render_exprs self') = length (render_exprs self)"
    using set_parent_frame_aux [OF assms] by simp
next
  fix i assume i: "i < length (render_exprs self)"
  with set_parent_frame_aux [OF assms] obtain expr' where
    e: "resolve_expr t' (fst (render_exprs self ! i)) = Inr expr'"
       "render_exprs self' ! i =
          (expr', fst (snd (render_exprs self ! i)), snd (snd (render_exprs self ! i)))"
    by blast
  show "fst (snd (render_exprs self' ! i)) = fst (snd (render_exprs self ! i))"
    and "snd (snd (render_exprs self' ! i)) = snd (snd (render_exprs self ! i))"
    using e(2) by simp_all
  assume "\<forall>s. fst (render_exprs self ! i) \<noteq> PyStr s"
  from resolve_expr_other [OF this, of t'] e
  show "fst (render_exprs self' ! i) = fst (render_exprs self ! i)" by simp
qed

theorem set_parent_frame_witness:
  "set_parent ColumnCollectionConstraint_set_parent pending_constraint some_table =
     (pending_constraint
        \<lparr>render_exprs := [(PyNode (ColumnRef col_period_adhoc), Some ''period'', ''&&''),
                          (PyNode (ColumnRef col_group), Some ''group'', ''='')],
         columns := [PyNode (ColumnRef col_period_adhoc), PyNode (ColumnRef col_group)],
         parent := Some ''some_table''\<rparr>,
      some_table\<lparr>constraints := [PyStr ''excl'']\<rparr>,
      None) \<and>
   base_keeps ColumnCollectionConstraint_set_parent pending_constraint some_table \<and>
   render_exprs pending_constraint ! 0 =
     (PyNode (ColumnRef col_period_adhoc), Some ''period'', ''&&'') \<and>
   length (render_exprs (fst (set_parent ColumnCollectionConstraint_set_parent
     pending_constraint some_table))) = length (render_exprs pending_constraint)"
  using set_parent_frame [OF attach_some_table base_keeps_sample] attach_some_table base_keeps_sample
  by (simp add: pending_constraint_def attached_constraint_def some_table_excl_def)

section \<open>DistinctOnClause: merging into the pre-columns slot\<close>

lemma merge_loop_eq:
  "merge_loop es (res, to_merge) = (res @ other_clauses es, to_merge @ distinct_targets es)"
proof (induction es arbitrary: res to_merge)
  case Nil
  then show ?case by (simp add: other_clauses_def)
next
  case (Cons e es)
  then show ?case by (cases e) (simp_all add: other_clauses_def)
qed

lemma expect_each_nodes:
  "(\<forall>n\<in>set ns. expect r (PyNode n) None = Inr n) \<Longrightarrow>
   expect_each expect r (map PyNode ns) = Inr ns"
  by (induction ns) simp_all

lemma merge_other_distinct_eq:
  "merge_other_distinct expect d existing =
     (if distinct_targets existing \<noteq> [] then
        (case expect_each expect ByOfRole (map PyNode (distinct_targets existing @ d)) of
           Inl e \<Rightarrow> Inl e
         | Inr ns \<Rightarrow> Inr (other_clauses existing @ [DistinctOnClause ns]))
      else Inr (other_clauses existing @ [DistinctOnClause d]))"
  by (simp add: merge_other_distinct_def merge_loop_eq DistinctOnClause_init_def split: sum.splits)

lemma other_clauses_append_distinct [simp]:
  "other_clauses (other_clauses es @ [DistinctOnClause ns]) = other_clauses es"
  by (simp add: other_clauses_def)

lemma filter_distinct_other_clauses [simp]:
  "filter is_DistinctOnClause (other_clauses es) = []"
  by (induction es) (simp_all add: other_clauses_def)

lemma distinct_targets_other_clauses [simp]:
  "distinct_targets (other_clauses es @ [DistinctOnClause ns]) = ns"
proof (induction es)
  case Nil
  then show ?case by (simp add: other_clauses_def)
next
  case (Cons e es)
  then show ?case by (cases e) (simp_all add: other_clauses_def)
qed

lemma merge_other_distinct_shape:
  assumes "merge_other_distinct expect d existing = Inr res"
  shows "\<exists>ns. res = other_clauses existing @ [DistinctOnClause ns]"
  using assms by (auto simp: merge_other_distinct_eq split: if_splits sum.splits)

lemma merge_other_distinct_total:
  assumes "\<forall>n\<in>set (distinct_targets existing @ d). expect ByOfRole (PyNode n) None = Inr n"
  shows "merge_other_distinct expect d existing =
           Inr (other_clauses existing @ [DistinctOnClause (distinct_targets existing @ d)])"
  using expect_each_nodes [of "distinct_targets existing @ d" expect ByOfRole] assms
  by (simp add: merge_other_distinct_eq)

lemma apply_to_select_ok:
  assumes "sel_distinct_on s = []"
    and "\<forall>n\<in>set (distinct_targets (pre_columns s) @ d). expect ByOfRole (PyNode n) None = Inr n"
  shows "apply_to_select expect d s =
     (s\<lparr>sel_distinct := True,
        pre_columns := other_clauses (pre_columns s) @
          [DistinctOnClause (distinct_targets (pre_columns s) @ d)]\<rparr>, None)"
  using assms(1) merge_other_distinct_total [of "pre_columns s" d expect] assms(2)
  by (simp add: apply_to_select_def apply_syntax_extension_point_def distinct_non_generative_def)

lemma apply_to_select_conflict:
  "sel_distinct_on s \<noteq> [] \<Longrightarrow>
   apply_to_select expect d s =
     (s, Some (InvalidRequestError
        ''Cannot mix ``select.ext(distinct_on(...))`` and ``select.distinct(...)``''))"
  by (simp add: apply_to_select_def)

lemma apply_twice:
  assumes legacy: "sel_distinct_on s = []"
    and idem: "\<forall>n\<in>set (distinct_targets (pre_columns s) @ a @ b). expect ByOfRole (PyNode n) None = Inr n"
  shows "\<exists>s1. apply_to_select expect a s = (s1, None) \<and>
     apply_to_select expect b s1 =
       (s\<lparr>sel_distinct := True,
          pre_columns := other_clauses (pre_columns s) @
            [DistinctOnClause (distinct_targets (pre_columns s) @ a @ b)]\<rparr>, None)"
proof -
  let ?s1 = "s\<lparr>sel_distinct := True,
        pre_columns := other_clauses (pre_columns s) @
          [DistinctOnClause (distinct_targets (pre_columns s) @ a)]\<rparr>"
  have 1: "apply_to_select expect a s = (?s1, None)"
    using idem legacy apply_to_select_ok [of s a expect] by auto
  have 2: "apply_to_select expect b ?s1 =
     (?s1\<lparr>sel_distinct := True,
        pre_columns := other_clauses (pre_columns ?s1) @
          [DistinctOnClause (distinct_targets (pre_columns ?s1) @ b)]\<rparr>, None)"
    using idem legacy apply_to_select_ok [of ?s1 b expect] by auto
  from 1 2 show ?thesis by simp
qed

text \<open>
  C10. Whatever the slot holds, a result of \<open>_merge_other_distinct\<close> keeps the elements
  of the slot that are not DISTINCT ON clauses, in their order, holds exactly one
  DISTINCT ON clause, and has it last. The callback does return such a result when the
  coercion gives back, unchanged, the nodes of the tuples it is handed again.
\<close>

theorem merge_other_distinct_invariant:
  "(\<forall>res. merge_other_distinct expect d existing = Inr res \<longrightarrow>
      other_clauses res = other_clauses existing \<and>
      length (filter is_DistinctOnClause res) = 1 \<and>
      res \<noteq> [] \<and> is_DistinctOnClause (last res) \<and> butlast res = other_clauses existing) \<and>
   ((\<forall>n\<in>set (distinct_targets existing @ d). expect ByOfRole (PyNode n) None = Inr n) \<longrightarrow>
      merge_other_distinct expect d existing =
        Inr (other_clauses existing @ [DistinctOnClause (distinct_targets existing @ d)]))"
proof (intro conjI allI impI)
  fix res assume "merge_other_distinct expect d existing = Inr res"
  from merge_other_distinct_shape [OF this] obtain ns where
    res: "res = other_clauses existing @ [DistinctOnClause ns]" ..
  show "other_clauses res = other_clauses existing" using res by simp
  show "length (filter is_DistinctOnClause res) = 1" using res by simp
  show "res \<noteq> []" using res by simp
  show "is_DistinctOnClause (last res)" using res by simp
  show "butlast res = other_clauses existing" using res by simp
next
  assume "\<forall>n\<in>set (distinct_targets existing @ d). expect ByOfRole (PyNode n) None = Inr n"
  then show "merge_other_distinct expect d existing =
        Inr (other_clauses existing @ [DistinctOnClause (distinct_targets existing @ d)])"
    using merge_other_distinct_total [of existing d expect] by simp
qed

theorem merge_other_distinct_invariant_witness:
  "coerce ByOfRole (PyNode (ColumnRef col_a)) None = Inr (ColumnRef col_a) \<and>
   coerce ByOfRole (PyNode (ColumnRef col_b)) None = Inr (ColumnRef col_b) \<and>
   merge_other_distinct coerce [ColumnRef col_b]
     [OtherClause (TextClause ''hint''), DistinctOnClause [ColumnRef col_a]] =
     Inr [OtherClause (TextClause ''hint''), DistinctOnClause [ColumnRef col_a, ColumnRef col_b]] \<and>
   other_clauses [OtherClause (TextClause ''hint''), DistinctOnClause [ColumnRef col_a]] =
     [OtherClause (TextClause ''hint'')]"
  using merge_other_distinct_invariant [of coerce "[ColumnRef col_b]"
      "[OtherClause (TextClause ''hint''), DistinctOnClause [ColumnRef col_a]]"]
  by (simp add: other_clauses_def)

text \<open>
  C3. On a statement without legacy DISTINCT ON columns, with a coercion that gives
  back the nodes of the tuples unchanged, applying a clause with tuple \<open>d1\<close> and then
  one with tuple \<open>d2\<close> succeeds both times and leaves in the pre-columns slot, after
  its other elements, exactly one DISTINCT ON clause, whose tuple is the targets the
  slot held before, then \<open>d1\<close>, then \<open>d2\<close>. For tuples \<open>[a]\<close> and \<open>[b]\<close> on a slot
  without earlier targets that clause is \<open>[a, b]\<close>. On a statement whose legacy DISTINCT
  ON columns are set, applying a clause raises the conflict error and changes nothing.
\<close>

theorem distinct_on_merge:
  "(sel_distinct_on s = [] \<and>
    (\<forall>n\<in>set (distinct_targets (pre_columns s) @ d1 @ d2). expect ByOfRole (PyNode n) None = Inr n) \<longrightarrow>
      (\<exists>s1 s2. apply_to_select expect d1 s = (s1, None) \<and>
         apply_to_select expect d2 s1 = (s2, None) \<and>
         pre_columns s2 = other_clauses (pre_columns s) @
           [DistinctOnClause (distinct_targets (pre_columns s) @ d1 @ d2)] \<and>
         length (filter is_DistinctOnClause (pre_columns s2)) = 1 \<and>
         sel_distinct s2 \<and> sel_distinct_on s2 = [])) \<and>
   (sel_distinct_on s = [] \<and> distinct_targets (pre_columns s) = [] \<and>
    expect ByOfRole (PyNode a) None = Inr a \<and> expect ByOfRole (PyNode b) None = Inr b \<longrightarrow>
      (\<exists>s1 s2. apply_to_select expect [a] s = (s1, None) \<and>
         apply_to_select expect [b] s1 = (s2, None) \<and>
         pre_columns s2 = other_clauses (pre_columns s) @ [DistinctOnClause [a, b]])) \<and>
   (sel_distinct_on s \<noteq> [] \<longrightarrow>
      apply_to_select expect d1 s =
        (s, Some (InvalidRequestError
           ''Cannot mix ``select.ext(distinct_on(...))`` and ``select.distinct(...)``'')))"
proof (intro conjI impI)
  assume h: "sel_distinct_on s = [] \<and>
    (\<forall>n\<in>set (distinct_targets (pre_columns s) @ d1 @ d2). expect ByOfRole (PyNode n) None = Inr n)"
  from apply_twice [of s d1 d2 expect] h obtain s1 where
    "apply_to_select expect d1 s = (s1, None)"
    "apply_to_select expect d2 s1 =
       (s\<lparr>sel_distinct := True,
          pre_columns := other_clauses (pre_columns s) @
            [DistinctOnClause (distinct_targets (pre_columns s) @ d1 @ d2)]\<rparr>, None)"
    by blast
  with h show "\<exists>s1 s2. apply_to_select expect d1 s = (s1, None) \<and>
         apply_to_select expect d2 s1 = (s2, None) \<and>
         pre_columns s2 = other_clauses (pre_columns s) @
           [DistinctOnClause (distinct_targets (pre_columns s) @ d1 @ d2)] \<and>
         length (filter is_DistinctOnClause (pre_columns s2)) = 1 \<and>
         sel_distinct s2 \<and> sel_distinct_on s2 = []"
    by simp
next
  assume h: "sel_distinct_on s = [] \<and> distinct_targets (pre_columns s) = [] \<and>
    expect ByOfRole (PyNode a) None = Inr a \<and> expect ByOfRole (PyNode b) None = Inr b"
  from apply_twice [of s "[a]" "[b]" expect] h obtain s1 where
    "apply_to_select expect [a] s = (s1, None)"
    "apply_to_select expect [b] s1 =
       (s\<lparr>sel_distinct := True,
          pre_columns := other_clauses (pre_columns s) @ [DistinctOnClause [a, b]]\<rparr>, None)"
    by auto
  then show "\<exists>s1 s2. apply_to_select expect [a] s = (s1, None) \<and>
         apply_to_select expect [b] s1 = (s2, None) \<and>
         pre_columns s2 = other_clauses (pre_columns s) @ [DistinctOnClause [a, b]]"
    by simp
next
  assume "sel_distinct_on s \<noteq> []"
  then show "apply_to_select expect d1 s =
        (s, Some (InvalidRequestError
           ''Cannot mix ``select.ext(distinct_on(...))`` and ``select.distinct(...)``''))"
    by (rule apply_to_select_conflict)
qed

theorem distinct_on_merge_witness:
  "apply_to_select coerce [ColumnRef col_a]
     \<lparr>sel_distinct = False, sel_distinct_on = [], pre_columns = []\<rparr> =
     (\<lparr>sel_distinct = True, sel_distinct_on = [],
       pre_columns = [DistinctOnClause [ColumnRef col_a]]\<rparr>, None) \<and>
   apply_to_select coerce [ColumnRef col_b]
     \<lparr>sel_distinct = True, sel_distinct_on = [],
      pre_columns = [DistinctOnClause [ColumnRef col_a]]\<rparr> =
     (\<lparr>sel_distinct = True, sel_distinct_on = [],
       pre_columns = [DistinctOnClause [ColumnRef col_a, ColumnRef col_b]]\<rparr>, None) \<and>
   coerce ByOfRole (PyNode (ColumnRef col_a)) None = Inr (ColumnRef col_a) \<and>
   coerce ByOfRole (PyNode (ColumnRef col_b)) None = Inr (ColumnRef col_b) \<and>
   apply_to_select coerce [ColumnRef col_b]
     \<lparr>sel_distinct = True, sel_distinct_on = [ColumnRef col_a], pre_columns = []\<rparr> =
     (\<lparr>sel_distinct = True, sel_distinct_on = [ColumnRef col_a], pre_columns = []\<rparr>,
      Some (InvalidRequestError
        ''Cannot mix ``select.ext(distinct_on(...))`` and ``select.distinct(...)``''))"
  using distinct_on_merge [of "\<lparr>sel_distinct = False, sel_distinct_on = [], pre_columns = []\<rparr>"
      "[ColumnRef col_a]" "[ColumnRef col_b]" coerce "ColumnRef col_a" "ColumnRef col_b"]
    distinct_on_merge [of "\<lparr>sel_distinct = True, sel_distinct_on = [ColumnRef col_a], pre_columns = []\<rparr>"
      "[ColumnRef col_b]" "[]" coerce "ColumnRef col_a" "ColumnRef col_b"]
  by (simp add: apply_to_select_def apply_syntax_extension_point_def distinct_non_generative_def
        merge_other_distinct_def DistinctOnClause_init_def)

section \<open>The regconfig function family: the type override of argument 0\<close>

lemma without_override:
  assumes "(case expect_each expect r args of Inl e \<Rightarrow> Inl e | Inr addtl \<Rightarrow> Inr ([] @ addtl)) = Inr ns"
  shows "length ns = length args \<and> (\<forall>i<length args. expect r (args ! i) None = Inr (ns ! i))"
proof -
  from assms have "expect_each expect r args = Inr ns" by (simp split: sum.splits)
  then show ?thesis using expect_each_length expect_each_nth by blast
qed

lemma with_override:
  assumes "(case expect r (args ! 0) (Some ty) of
              Inl e \<Rightarrow> Inl e
            | Inr initial_arg \<Rightarrow>
                (case expect_each expect r (tl args) of
                   Inl e \<Rightarrow> Inl e
                 | Inr addtl \<Rightarrow> Inr ([initial_arg] @ addtl))) = Inr ns"
    and "args \<noteq> []"
  shows "length ns = length args \<and>
         (\<forall>i<length args. expect r (args ! i) (if i = 0 then Some ty else None) = Inr (ns ! i))"
proof -
  from assms(2) obtain a rest where args: "args = a # rest" by (cases args) auto
  from assms(1) args obtain n addtl where
    hd: "expect r a (Some ty) = Inr n" and tl: "expect_each expect r rest = Inr addtl"
    and ns: "ns = n # addtl"
    by (auto split: sum.splits)
  have len: "length addtl = length rest" using tl by (rule expect_each_length)
  show ?thesis
  proof (intro conjI allI impI)
    show "length ns = length args" using ns args len by simp
  next
    fix i assume "i < length args"
    then show "expect r (args ! i) (if i = 0 then Some ty else None) = Inr (ns ! i)"
      using args ns hd expect_each_nth [OF tl] by (cases i) auto
  qed
qed

lemma without_override_total:
  assumes "\<And>i. i < length args \<Longrightarrow> expect r (args ! i) None = Inr (f i)"
  shows "(case expect_each expect r args of Inl e \<Rightarrow> Inl e | Inr addtl \<Rightarrow> Inr ([] @ addtl)) =
           Inr (map f [0..<length args])"
  using expect_each_total [of args expect r f] assms by simp

lemma with_override_total:
  assumes "\<And>i. i < length args \<Longrightarrow> expect r (args ! i) (if i = 0 then Some ty else None) = Inr (f i)"
    and "args \<noteq> []"
  shows "(case expect r (args ! 0) (Some ty) of
              Inl e \<Rightarrow> Inl e
            | Inr initial_arg \<Rightarrow>
                (case expect_each expect r (tl args) of
                   Inl e \<Rightarrow> Inl e
                 | Inr addtl \<Rightarrow> Inr ([initial_arg] @ addtl))) = Inr (map f [0..<length args])"
proof -
  from assms(2) obtain a rest where args: "args = a # rest" by (cases args) auto
  have hd: "expect r a (Some ty) = Inr (f 0)" using assms(1) [of 0] args by simp
  have "\<And>i. i < length rest \<Longrightarrow> expect r (rest ! i) None = Inr (f (Suc i))"
    using assms(1) [of "Suc _"] args by simp
  then have tl: "expect_each expect r rest = Inr (map (\<lambda>i. f (Suc i)) [0..<length rest])"
    using expect_each_total [of rest expect r "\<lambda>i. f (Suc i)"] by simp
  have "map f [0..<length (a # rest)] = f 0 # map (\<lambda>i. f (Suc i)) [0..<length rest]"
    by (simp add: upt_conv_Cons map_Suc_upt [symmetric] del: upt_Suc)
  with hd tl args show ?thesis by simp
qed

lemma regconfig_fn_args_nth:
  assumes "regconfig_fn_args expect args = Inr ns"
  shows "length ns = length args \<and>
     (\<forall>i<length args. expect ExpressionElementRole (args ! i)
        (if i = 0 \<and> 1 < length args then Some (Plain REGCONFIG) else None) = Inr (ns ! i))"
proof (cases "1 < length args")
  case True
  then have ne: "args \<noteq> []" by auto
  from assms True with_override [of expect ExpressionElementRole args "Plain REGCONFIG" ns, OF _ ne]
  show ?thesis by (simp add: regconfig_fn_args_def)
next
  case False
  from assms False without_override [of expect ExpressionElementRole args ns]
  show ?thesis by (simp add: regconfig_fn_args_def)
qed

lemma regconfig_fn_args_total:
  assumes "\<forall>i<length args. expect ExpressionElementRole (args ! i)
        (if i = 0 \<and> 1 < length args then Some (Plain REGCONFIG) else None) = Inr (f i)"
  shows "regconfig_fn_args expect args = Inr (map f [0..<length args])"
proof (cases "1 < length args")
  case True
  then have ne: "args \<noteq> []" by auto
  from assms True with_override_total [of args expect ExpressionElementRole "Plain REGCONFIG" f, OF _ ne]
  show ?thesis by (simp add: regconfig_fn_args_def)
next
  case False
  from assms False without_override_total [of args expect ExpressionElementRole f]
  show ?thesis by (simp add: regconfig_fn_args_def)
qed

lemma ts_headline_args_nth:
  assumes "ts_headline_args expect args = Inr ns"
  shows "length ns = length args \<and>
     (\<forall>i<length args. expect ExpressionElementRole (args ! i)
        (if i = 0 \<and> ts_headline_has_regconfig args then Some (Plain REGCONFIG) else None) = Inr (ns ! i))"
proof (cases "ts_headline_has_regconfig args")
  case True
  then have ne: "args \<noteq> []" by (auto simp: ts_headline_has_regconfig_def)
  from assms True with_override [of expect ExpressionElementRole args "Plain REGCONFIG" ns, OF _ ne]
  show ?thesis by (simp add: ts_headline_args_def)
next
  case False
  from assms False without_override [of expect ExpressionElementRole args ns]
  show ?thesis by (simp add: ts_headline_args_def)
qed

lemma ts_headline_args_total:
  assumes "\<forall>i<length args. expect ExpressionElementRole (args ! i)
        (if i = 0 \<and> ts_headline_has_regconfig args then Some (Plain REGCONFIG) else None) = Inr (f i)"
  shows "ts_headline_args expect args = Inr (map f [0..<length args])"
proof (cases "ts_headline_has_regconfig args")
  case True
  then have ne: "args \<noteq> []" by (auto simp: ts_headline_has_regconfig_def)
  from assms True with_override_total [of args expect ExpressionElementRole "Plain REGCONFIG" f, OF _ ne]
  show ?thesis by (simp add: ts_headline_args_def)
next
  case False
  from assms False without_override_total [of args expect ExpressionElementRole f]
  show ?thesis by (simp add: ts_headline_args_def)
qed

lemma ts_headline_has_regconfig_iff:
  "ts_headline_has_regconfig args \<longleftrightarrow> 2 \<le> length args \<and> \<not> is_tsquery_expr (args ! 1)"
  by (auto simp: ts_headline_has_regconfig_def)

text \<open>
  C6. For each of \<open>to_tsvector\<close>, \<open>to_tsquery\<close>, \<open>plainto_tsquery\<close>, \<open>phraseto_tsquery\<close>
  and \<open>websearch_to_tsquery\<close>, a constructed function node has one argument per
  positional argument, the i-th being the coercion of the i-th under the expression
  role, with the REGCONFIG type override for argument 0 when more than one argument is
  given and without any override otherwise (so never for a single argument). The
  constructor returns that node whenever these coercions succeed.
\<close>

theorem regconfig_override:
  "(\<forall>fn. regconfig_fn_init expect cls args = Inr fn \<longrightarrow>
      (\<exists>ns. fn = FunctionElement (class_name cls) ns (class_type cls) \<and>
         length ns = length args \<and>
         (\<forall>i<length args. expect ExpressionElementRole (args ! i)
            (if i = 0 \<and> 1 < length args then Some (Plain REGCONFIG) else None) = Inr (ns ! i)))) \<and>
   ((\<forall>i<length args. expect ExpressionElementRole (args ! i)
        (if i = 0 \<and> 1 < length args then Some (Plain REGCONFIG) else None) = Inr (f i)) \<longrightarrow>
      regconfig_fn_init expect cls args =
        Inr (FunctionElement (class_name cls) (map f [0..<length args]) (class_type cls)))"
proof (intro conjI allI impI)
  fix fn assume "regconfig_fn_init expect cls args = Inr fn"
  then obtain ns where ns: "regconfig_fn_args expect args = Inr ns"
    and fn: "fn = FunctionElement (class_name cls) ns (class_type cls)"
    by (auto simp: regconfig_fn_init_def GenericFunction_init_def split: sum.splits)
  from regconfig_fn_args_nth [OF ns] fn
  show "\<exists>ns. fn = FunctionElement (class_name cls) ns (class_type cls) \<and>
         length ns = length args \<and>
         (\<forall>i<length args. expect ExpressionElementRole (args ! i)
            (if i = 0 \<and> 1 < length args then Some (Plain REGCONFIG) else None) = Inr (ns ! i))"
    by blast
next
  assume a: "\<forall>i<length args. expect ExpressionElementRole (args ! i)
        (if i = 0 \<and> 1 < length args then Some (Plain REGCONFIG) else None) = Inr (f i)"
  have "regconfig_fn_args expect args = Inr (map f [0..<length args])"
    using regconfig_fn_args_total [of args expect f] a by blast
  then show "regconfig_fn_init expect cls args =
        Inr (FunctionElement (class_name cls) (map f [0..<length args]) (class_type cls))"
    by (simp add: regconfig_fn_init_def GenericFunction_init_def)
qed

theorem regconfig_override_witness:
  "coerce ExpressionElementRole (PyStr ''english'') (Some (Plain REGCONFIG)) =
     Inr (BindParameter (LitStr ''english'') (Plain REGCONFIG)) \<and>
   coerce ExpressionElementRole (PyStr ''some text'') None =
     Inr (BindParameter (LitStr ''some text'') (Plain String)) \<and>
   regconfig_fn_init coerce to_tsvector [PyStr ''english'', PyStr ''some text''] =
     Inr (FunctionElement ''to_tsvector''
       [BindParameter (LitStr ''english'') (Plain REGCONFIG),
        BindParameter (LitStr ''some text'') (Plain String)] (Plain TSVECTOR))"
proof -
  let ?args = "[PyStr ''english'', PyStr ''some text'']"
  let ?f = "\<lambda>i. [BindParameter (LitStr ''english'') (Plain REGCONFIG),
                  BindParameter (LitStr ''some text'') (Plain String)] ! i"
  have c0: "coerce ExpressionElementRole (PyStr ''english'') (Some (Plain REGCONFIG)) =
     Inr (BindParameter (LitStr ''english'') (Plain REGCONFIG))"
    and c1: "coerce ExpressionElementRole (PyStr ''some text'') None =
     Inr (BindParameter (LitStr ''some text'') (Plain String))"
    by (simp_all add: wrap_literal_def)
  have hyp: "\<forall>i<length ?args. coerce ExpressionElementRole (?args ! i)
        (if i = 0 \<and> 1 < length ?args then Some (Plain REGCONFIG) else None) = Inr (?f i)"
    using c0 c1 by (simp add: less_Suc_eq numeral_2_eq_2 All_less_Suc del: coerce.simps)
  have "regconfig_fn_init coerce to_tsvector ?args =
        Inr (FunctionElement (class_name to_tsvector) (map ?f [0..<length ?args]) (class_type to_tsvector))"
    using regconfig_override [of coerce to_tsvector ?args ?f, THEN conjunct2] hyp by (rule mp)
  then have "regconfig_fn_init coerce to_tsvector ?args =
     Inr (FunctionElement ''to_tsvector''
       [BindParameter (LitStr ''english'') (Plain REGCONFIG),
        BindParameter (LitStr ''some text'') (Plain String)] (Plain TSVECTOR))"
    by (simp add: upt_rec numeral_2_eq_2)
  with c0 c1 show ?thesis by simp
qed

lemma coerce_idempotent: "expect_idempotent coerce"
  unfolding expect_idempotent_def
proof (intro allI impI)
  fix v ty n ty'
  assume "coerce ExpressionElementRole v ty = Inr n"
  then have "is_ColumnElement n"
    by (cases v) (auto simp: wrap_literal_def split: if_splits)
  then show "coerce ExpressionElementRole (PyNode n) ty' = Inr n" by simp
qed

lemma ts_headline_second_pass:
  assumes idem: "expect_idempotent expect"
    and first: "ts_headline_args expect args = Inr parsed"
  shows "regconfig_fn_args expect (map PyNode parsed) = Inr parsed"
proof -
  from ts_headline_args_nth [OF first] have
    len: "length parsed = length args" and
    nth: "\<And>i. i < length args \<Longrightarrow> expect ExpressionElementRole (args ! i)
        (if i = 0 \<and> ts_headline_has_regconfig args then Some (Plain REGCONFIG) else None) =
        Inr (parsed ! i)"
    by blast+
  have again: "\<forall>i<length (map PyNode parsed). expect ExpressionElementRole (map PyNode parsed ! i)
        (if i = 0 \<and> 1 < length (map PyNode parsed) then Some (Plain REGCONFIG) else None) =
        Inr (parsed ! i)"
  proof (intro allI impI)
    fix i assume i: "i < length (map PyNode parsed)"
    then have "i < length args" using len by simp
    from nth [OF this] idem
    have "expect ExpressionElementRole (PyNode (parsed ! i))
        (if i = 0 \<and> 1 < length (map PyNode parsed) then Some (Plain REGCONFIG) else None) =
        Inr (parsed ! i)"
      unfolding expect_idempotent_def by blast
    with i show "expect ExpressionElementRole (map PyNode parsed ! i)
        (if i = 0 \<and> 1 < length (map PyNode parsed) then Some (Plain REGCONFIG) else None) =
        Inr (parsed ! i)" by simp
  qed
  have "regconfig_fn_args expect (map PyNode parsed) =
          Inr (map (\<lambda>i. parsed ! i) [0..<length (map PyNode parsed)])"
    using regconfig_fn_args_total [of "map PyNode parsed" expect "\<lambda>i. parsed ! i"] again
    by blast
  then show ?thesis by (simp add: map_nth)
qed

text \<open>
  C5, as the code has it. \<open>ts_headline\<close> applies the REGCONFIG override to argument 0
  exactly when there are at least two arguments and the second is not a column
  expression whose type has the text-search query affinity, however many arguments
  follow; with fewer than two arguments it never applies it. With a coercion that
  returns unchanged the nodes it has produced, so that the inherited constructor
  leaves the argument list as it receives it, the constructed node has one argument
  per positional argument, coerced accordingly.
\<close>

theorem ts_headline_override:
  "(ts_headline_has_regconfig args \<longleftrightarrow> 2 \<le> length args \<and> \<not> is_tsquery_expr (args ! 1)) \<and>
   (expect_idempotent expect \<longrightarrow>
      (\<forall>fn. ts_headline_init expect args = Inr fn \<longrightarrow>
         (\<exists>ns. fn = FunctionElement ''ts_headline'' ns (Plain TEXT) \<and>
            length ns = length args \<and>
            (\<forall>i<length args. expect ExpressionElementRole (args ! i)
               (if i = 0 \<and> 2 \<le> length args \<and> \<not> is_tsquery_expr (args ! 1)
                then Some (Plain REGCONFIG) else None) = Inr (ns ! i))))) \<and>
   (expect_idempotent expect \<and>
    (\<forall>i<length args. expect ExpressionElementRole (args ! i)
        (if i = 0 \<and> 2 \<le> length args \<and> \<not> is_tsquery_expr (args ! 1)
         then Some (Plain REGCONFIG) else None) = Inr (f i)) \<longrightarrow>
      ts_headline_init expect args =
        Inr (FunctionElement ''ts_headline'' (map f [0..<length args]) (Plain TEXT)))"
proof (intro conjI allI impI)
  show "ts_headline_has_regconfig args \<longleftrightarrow> 2 \<le> length args \<and> \<not> is_tsquery_expr (args ! 1)"
    by (rule ts_headline_has_regconfig_iff)
next
  fix fn assume idem: "expect_idempotent expect" and "ts_headline_init expect args = Inr fn"
  then obtain parsed parsed' where first: "ts_headline_args expect args = Inr parsed"
    and second: "regconfig_fn_args expect (map PyNode parsed) = Inr parsed'"
    and fn: "fn = FunctionElement ''ts_headline'' parsed' (Plain TEXT)"
    by (auto simp: ts_headline_init_def GenericFunction_init_def split: sum.splits)
  from ts_headline_second_pass [OF idem first] second have same: "parsed' = parsed" by simp
  have "length parsed = length args \<and>
     (\<forall>i<length args. expect ExpressionElementRole (args ! i)
        (if i = 0 \<and> 2 \<le> length args \<and> \<not> is_tsquery_expr (args ! 1)
         then Some (Plain REGCONFIG) else None) = Inr (parsed ! i))"
    using ts_headline_args_nth [OF first] unfolding ts_headline_has_regconfig_iff [of args] .
  with fn same
  show "\<exists>ns. fn = FunctionElement ''ts_headline'' ns (Plain TEXT) \<and>
         length ns = length args \<and>
         (\<forall>i<length args. expect ExpressionElementRole (args ! i)
            (if i = 0 \<and> 2 \<le> length args \<and> \<not> is_tsquery_expr (args ! 1)
             then Some (Plain REGCONFIG) else None) = Inr (ns ! i))"
    by blast
next
  assume h: "expect_idempotent expect \<and>
    (\<forall>i<length args. expect ExpressionElementRole (args ! i)
        (if i = 0 \<and> 2 \<le> length args \<and> \<not> is_tsquery_expr (args ! 1)
         then Some (Plain REGCONFIG) else None) = Inr (f i))"
  then have idem: "expect_idempotent expect" by blast
  from h have a: "\<forall>i<length args. expect ExpressionElementRole (args ! i)
        (if i = 0 \<and> ts_headline_has_regconfig args then Some (Plain REGCONFIG) else None) = Inr (f i)"
    unfolding ts_headline_has_regconfig_iff [of args] by blast
  have first: "ts_headline_args expect args = Inr (map f [0..<length args])"
    using ts_headline_args_total [of args expect f] a by blast
  from ts_headline_second_pass [OF idem first] first
  show "ts_headline_init expect args =
        Inr (FunctionElement ''ts_headline'' (map f [0..<length args]) (Plain TEXT))"
    by (simp add: ts_headline_init_def GenericFunction_init_def)
qed

theorem ts_headline_override_witness:
  "expect_idempotent coerce \<and>
   ts_headline_has_regconfig [PyStr ''english'', PyNode (ColumnRef col_b),
      PyNode (FunctionElement ''to_tsquery'' [BindParameter (LitStr ''fat'') (Plain String)]
        (Plain TSQUERY))] \<and>
   coerce ExpressionElementRole (PyStr ''english'') (Some (Plain REGCONFIG)) =
     Inr (BindParameter (LitStr ''english'') (Plain REGCONFIG)) \<and>
   ts_headline_init coerce
     [PyStr ''english'', PyNode (ColumnRef col_b),
      PyNode (FunctionElement ''to_tsquery'' [BindParameter (LitStr ''fat'') (Plain String)]
        (Plain TSQUERY))] =
     Inr (FunctionElement ''ts_headline''
       [BindParameter (LitStr ''english'') (Plain REGCONFIG), ColumnRef col_b,
        FunctionElement ''to_tsquery'' [BindParameter (LitStr ''fat'') (Plain String)]
          (Plain TSQUERY)]
       (Plain TEXT))"
proof -
  let ?q = "FunctionElement ''to_tsquery'' [BindParameter (LitStr ''fat'') (Plain String)]
          (Plain TSQUERY)"
  let ?args = "[PyStr ''english'', PyNode (ColumnRef col_b), PyNode ?q]"
  let ?f = "\<lambda>i. [BindParameter (LitStr ''english'') (Plain REGCONFIG), ColumnRef col_b, ?q] ! i"
  have c0: "coerce ExpressionElementRole (PyStr ''english'') (Some (Plain REGCONFIG)) =
     Inr (BindParameter (LitStr ''english'') (Plain REGCONFIG))"
    by (simp add: wrap_literal_def)
  have nq: "\<not> is_tsquery_expr (?args ! 1)"
    by (simp add: is_tsquery_expr_def)
  have hr: "ts_headline_has_regconfig ?args"
    using ts_headline_override [of ?args coerce ?f, THEN conjunct1] nq by simp
  have hyp: "\<forall>i<length ?args. coerce ExpressionElementRole (?args ! i)
        (if i = 0 \<and> 2 \<le> length ?args \<and> \<not> is_tsquery_expr (?args ! 1)
         then Some (Plain REGCONFIG) else None) = Inr (?f i)"
    using nq by (simp add: All_less_Suc numeral_3_eq_3 wrap_literal_def)
  have "ts_headline_init coerce ?args =
        Inr (FunctionElement ''ts_headline'' (map ?f [0..<length ?args]) (Plain TEXT))"
    using ts_headline_override [of ?args coerce ?f, THEN conjunct2, THEN conjunct2]
      coerce_idempotent hyp
    by blast
  then have "ts_headline_init coerce ?args =
     Inr (FunctionElement ''ts_headline''
       [BindParameter (LitStr ''english'') (Plain REGCONFIG), ColumnRef col_b, ?q] (Plain TEXT))"
    by (simp add: upt_rec numeral_3_eq_3)
  with c0 hr coerce_idempotent show ?thesis by simp
qed

text \<open>
  With three arguments of which the second is a text-search query, two arguments
  would remain after a leading configuration argument, and still no override is
  applied: the first argument is the document.
\<close>

theorem ts_headline_three_args_counterexample:
  "length (tl [PyStr ''some document'',
      PyNode (FunctionElement ''to_tsquery'' [BindParameter (LitStr ''fat'') (Plain String)]
        (Plain TSQUERY)),
      PyStr ''MaxWords=7'']) = 2 \<and>
   is_tsquery_expr ([PyStr ''some document'',
      PyNode (FunctionElement ''to_tsquery'' [BindParameter (LitStr ''fat'') (Plain String)]
        (Plain TSQUERY)),
      PyStr ''MaxWords=7''] ! 1) \<and>
   \<not> ts_headline_has_regconfig [PyStr ''some document'',
      PyNode (FunctionElement ''to_tsquery'' [BindParameter (LitStr ''fat'') (Plain String)]
        (Plain TSQUERY)),
      PyStr ''MaxWords=7''] \<and>
   ts_headline_init coerce [PyStr ''some document'',
      PyNode (FunctionElement ''to_tsquery'' [BindParameter (LitStr ''fat'') (Plain String)]
        (Plain TSQUERY)),
      PyStr ''MaxWords=7''] =
     Inr (FunctionElement ''ts_headline''
       [BindParameter (LitStr ''some document'') (Plain String),
        FunctionElement ''to_tsquery'' [BindParameter (LitStr ''fat'') (Plain String)]
          (Plain TSQUERY),
        BindParameter (LitStr ''MaxWords=7'') (Plain String)]
       (Plain TEXT))"
  by (simp add: ts_headline_init_def ts_headline_args_def ts_headline_has_regconfig_def
        regconfig_fn_args_def is_tsquery_expr_def GenericFunction_init_def wrap_literal_def)

section \<open>ExcludeConstraint: copying\<close>

lemma init_using_ops:
  assumes "ExcludeConstraint_init ex expect check_attach base elements kw = Inr (c, tb)"
  shows "ec_using c = kw_get kw ''using'' (PyStr ''gist'') \<and> ops c = kw_get kw ''ops'' (PyDict [])"
proof -
  from init_result [OF assms] obtain self1 wh where
    "c = (case wh of None \<Rightarrow> self1 | Some n \<Rightarrow> self1\<lparr>ec_where := Some n\<rparr>)
           \<lparr>ec_using := kw_get kw ''using'' (PyStr ''gist''),
            ops := kw_get kw ''ops'' (PyDict [])\<rparr>"
    by blast
  then show ?thesis by simp
qed

lemma base_init_modifiers:
  assumes b: "ColumnCollectionConstraint_init check_attach base self cols nm dfr ini = Inr (self1, tb)"
    and keeps: "tb \<noteq> None \<longrightarrow> (\<forall>s0 t. base_keeps_modifiers base s0 t)"
  shows "ec_name self1 = nm \<and> deferrable self1 = dfr \<and> initially self1 = ini \<and>
         ec_where self1 = ec_where self \<and> dispatch self1 = dispatch self"
proof -
  let ?self0 = "self\<lparr>columns := cols, ec_name := nm, deferrable := dfr, initially := ini\<rparr>"
  from base_init_result [OF b] consider
    (unattached) "tb = None" "self1 = ?self0"
  | (attached) t t1 where "tb = Some t1" "set_parent base ?self0 t = (self1, t1, None)"
    by auto
  then show ?thesis
  proof cases
    case unattached
    then show ?thesis by simp
  next
    case attached
    from set_parent_success [OF attached(2)] obtain selfb rs where
      sb: "base ?self0 t = (selfb, t1, None)" and s1: "self1 = selfb\<lparr>render_exprs := rs\<rparr>"
      by blast
    from keeps attached(1) have "base_keeps_modifiers base ?self0 t" by simp
    with sb s1 show ?thesis by (simp add: base_keeps_modifiers_def)
  qed
qed

lemma init_modifiers:
  assumes init: "ExcludeConstraint_init ex expect check_attach base elements kw = Inr (c, tb)"
    and keeps: "tb \<noteq> None \<longrightarrow> (\<forall>s0 t. base_keeps_modifiers base s0 t)"
  shows "ec_name c = kw_get kw ''name'' PyNone \<and>
         deferrable c = kw_get kw ''deferrable'' PyNone \<and>
         initially c = kw_get kw ''initially'' PyNone \<and>
         coerce_where expect kw = Inr (ec_where c) \<and>
         dispatch c = []"
proof -
  from init_result [OF init] obtain cols rs opers self1 wh where
    b: "ColumnCollectionConstraint_init check_attach base
          (new_constraint\<lparr>render_exprs := rs, operators := opers\<rparr>) cols
          (kw_get kw ''name'' PyNone) (kw_get kw ''deferrable'' PyNone)
          (kw_get kw ''initially'' PyNone) = Inr (self1, tb)" and
    w: "coerce_where expect kw = Inr wh" and
    c: "c = (case wh of None \<Rightarrow> self1 | Some n \<Rightarrow> self1\<lparr>ec_where := Some n\<rparr>)
              \<lparr>ec_using := kw_get kw ''using'' (PyStr ''gist''),
               ops := kw_get kw ''ops'' (PyDict [])\<rparr>"
    by blast
  from base_init_modifiers [OF b keeps] have
    m: "ec_name self1 = kw_get kw ''name'' PyNone" "deferrable self1 = kw_get kw ''deferrable'' PyNone"
       "initially self1 = kw_get kw ''initially'' PyNone" "ec_where self1 = None"
       "dispatch self1 = []"
    by (simp_all add: new_constraint_def)
  from c m w show ?thesis by (cases wh) simp_all
qed

lemma copy_kw_get:
  "kw_get (copy_kw self) ''name'' d = ec_name self"
  "kw_get (copy_kw self) ''deferrable'' d = deferrable self"
  "kw_get (copy_kw self) ''initially'' d = initially self"
  "kw_get (copy_kw self) ''using'' d = ec_using self"
  "kw_get (copy_kw self) ''ops'' d = d"
  "kw_get (copy_kw self) ''where'' d = where_arg (ec_where self)"
  by (simp_all add: kw_get_def copy_kw_def)

lemma coerce_where_copy:
  assumes "\<forall>n. ec_where self = Some n \<longrightarrow> expect StatementOptionRole (PyNode n) None = Inr n"
  shows "coerce_where expect (copy_kw self) = Inr (ec_where self)"
  using assms
  by (cases "ec_where self") (simp_all add: coerce_where_def copy_kw_get where_arg_def)

lemma copy_result:
  assumes "ExcludeConstraint_copy ex expect check_attach base ce self target_table = Inr (c, tb)"
  shows "\<exists>p c0. parent self = Some p \<and>
           ExcludeConstraint_init ex expect check_attach base
             (map (\<lambda>(expr, _, operator). (ce expr p target_table, operator)) (render_exprs self))
             (copy_kw self) = Inr (c0, tb) \<and>
           c = c0\<lparr>dispatch := dispatch c0 @ dispatch self\<rparr>"
  using assms
  by (auto simp: ExcludeConstraint_copy_def Let_def split: option.splits sum.splits)

lemma base_keeps_modifiers_sample:
  "base_keeps_modifiers ColumnCollectionConstraint_set_parent self t"
  by (simp add: base_keeps_modifiers_def ColumnCollectionConstraint_set_parent_def Let_def
        split: sum.splits)

lemma copy_resolved:
  "ExcludeConstraint_copy coerce_ddl coerce (check_attach_in [''some_table'' \<mapsto> some_table_excl])
     ColumnCollectionConstraint_set_parent schema_copy_expression resolved_constraint None =
     Inr (resolved_constraint\<lparr>ops := PyDict []\<rparr>,
          Some (some_table\<lparr>constraints := [PyStr ''excl'', PyStr ''excl'']\<rparr>))"
  by (simp add: ExcludeConstraint_copy_def resolved_constraint_def
        schema_copy_expression_def ExcludeConstraint_init_def unzip_elements_def coerce_ddl_def
        ColumnCollectionConstraint_init_def check_attach_in_def new_constraint_def
        some_table_def some_table_excl_def
        set_parent_def ColumnCollectionConstraint_set_parent_def lookup_column_def resolve_expr_def
        coerce_where_def kw_get_def copy_kw_def where_arg_def)

text \<open>
  C8, what \<open>_copy\<close> does. The \<open>ops\<close> mapping of a copy is always the empty default:
  \<open>_copy\<close> does not pass \<open>ops\<close> to the constructor, so the operator classes of the
  original are lost. The \<open>using\<close> modifier is that of the original. When the
  constructor does not attach the copy, or the base class's step keeps the render list
  and the modifiers, the copy also has the name, the \<open>deferrable\<close> and \<open>initially\<close>
  modifiers and the dispatch registrations of the original, a render list of the same
  length, and its \<open>where\<close> clause when the coercion gives that node back unchanged.
\<close>

theorem copy_modifiers:
  assumes "ExcludeConstraint_copy ex expect check_attach base ce self target_table = Inr (c, tb)"
  shows "ops c = PyDict [] \<and> ec_using c = ec_using self \<and>
         ((tb \<noteq> None \<longrightarrow> (\<forall>s0 t. base_keeps base s0 t \<and> base_keeps_modifiers base s0 t)) \<longrightarrow>
            ec_name c = ec_name self \<and> deferrable c = deferrable self \<and>
            initially c = initially self \<and> dispatch c = dispatch self \<and>
            length (render_exprs c) = length (render_exprs self) \<and>
            ((\<forall>n. ec_where self = Some n \<longrightarrow> expect StatementOptionRole (PyNode n) None = Inr n) \<longrightarrow>
               ec_where c = ec_where self))"
proof -
  from copy_result [OF assms] obtain p c0 where
    p: "parent self = Some p" and
    i: "ExcludeConstraint_init ex expect check_attach base
             (map (\<lambda>(expr, _, operator). (ce expr p target_table, operator)) (render_exprs self))
             (copy_kw self) = Inr (c0, tb)" and
    c: "c = c0\<lparr>dispatch := dispatch c0 @ dispatch self\<rparr>" by blast
  from init_using_ops [OF i] c have uo: "ops c = PyDict []" "ec_using c = ec_using self"
    by (simp_all add: copy_kw_get)
  have rest: "ec_name c = ec_name self \<and> deferrable c = deferrable self \<and>
            initially c = initially self \<and> dispatch c = dispatch self \<and>
            length (render_exprs c) = length (render_exprs self) \<and>
            ((\<forall>n. ec_where self = Some n \<longrightarrow> expect StatementOptionRole (PyNode n) None = Inr n) \<longrightarrow>
               ec_where c = ec_where self)"
    if k: "tb \<noteq> None \<longrightarrow> (\<forall>s0 t. base_keeps base s0 t \<and> base_keeps_modifiers base s0 t)"
  proof -
    from k have k1: "tb \<noteq> None \<longrightarrow> (\<forall>s0 t. base_keeps_modifiers base s0 t)"
      and k2: "tb \<noteq> None \<longrightarrow> (\<forall>s0 t. base_keeps base s0 t)" by blast+
    note m = init_modifiers [OF i k1]
    have len: "length (render_exprs c0) = length (render_exprs self)"
      using init_entries [OF i k2] by simp
    have w: "(\<forall>n. ec_where self = Some n \<longrightarrow> expect StatementOptionRole (PyNode n) None = Inr n) \<longrightarrow>
            ec_where c0 = ec_where self"
    proof
      assume "\<forall>n. ec_where self = Some n \<longrightarrow> expect StatementOptionRole (PyNode n) None = Inr n"
      with coerce_where_copy [of self expect]
      have "coerce_where expect (copy_kw self) = Inr (ec_where self)" by blast
      with m show "ec_where c0 = ec_where self" by simp
    qed
    from m len w c show ?thesis by (simp add: copy_kw_get)
  qed
  from uo rest show ?thesis by blast
qed

theorem copy_modifiers_witness:
  "ExcludeConstraint_copy coerce_ddl coerce (check_attach_in [''some_table'' \<mapsto> some_table_excl])
     ColumnCollectionConstraint_set_parent schema_copy_expression resolved_constraint None =
     Inr (resolved_constraint\<lparr>ops := PyDict []\<rparr>,
          Some (some_table\<lparr>constraints := [PyStr ''excl'', PyStr ''excl'']\<rparr>)) \<and>
   ops resolved_constraint = PyDict [(''group'', ''my_operator_class'')] \<and>
   ops (resolved_constraint\<lparr>ops := PyDict []\<rparr>) = PyDict [] \<and>
   ec_name (resolved_constraint\<lparr>ops := PyDict []\<rparr>) = ec_name resolved_constraint \<and>
   ec_using (resolved_constraint\<lparr>ops := PyDict []\<rparr>) = ec_using resolved_constraint"
  using copy_modifiers [OF copy_resolved] copy_resolved
  by (simp add: resolved_constraint_def)

end
